theory Spec2Isabelle
  imports Complex_Main "HOL-Library.Char_ord" "HOL-Library.List_Lexorder"
begin

section \<open>Strings and the city registry (utils/data\_loader.py)\<close>

text \<open>
  Python strings are modelled as \<^typ>\<open>string\<close>, a list of code points below 256; the
  registry itself is plain ASCII. \<open>str.lower\<close> maps the upper-case letters of that range
  (A-Z, and the Latin-1 letters 192-214 and 216-222) to the code point 32 above, and
  \<open>str.replace(c, '')\<close> with a one-character pattern deletes every occurrence of it.
\<close>

definition lower_char :: "char \<Rightarrow> char" where
  "lower_char c =
     (let n = (of_char c :: nat)
      in if (65 \<le> n \<and> n \<le> 90) \<or> (192 \<le> n \<and> n \<le> 214) \<or> (216 \<le> n \<and> n \<le> 222)
         then char_of (n + 32) else c)"

definition lower :: "string \<Rightarrow> string" where
  "lower s = map lower_char s"

definition remove_char :: "char \<Rightarrow> string \<Rightarrow> string" where
  "remove_char c s = filter (\<lambda>d. d \<noteq> c) s"

definition replace_char :: "char \<Rightarrow> char \<Rightarrow> string \<Rightarrow> string" where
  "replace_char c d s = map (\<lambda>e. if e = c then d else e) s"

record city =
  name :: string
  lat :: real
  lon :: real
  state :: string

text \<open>
  \<open>INDIAN_CITIES\<close> in the iteration order of the dictionary literal. The literal writes the
  keys \<open>bhubaneswar\<close> and \<open>mahabaleshwar\<close> twice with the same record; a Python dictionary
  keeps one entry for each, at the position of the first.
\<close>

definition INDIAN_CITIES :: "(string \<times> city) list" where
  "INDIAN_CITIES = [
  (''mumbai'', \<lparr>name = ''Mumbai'', lat = 19.076, lon = 72.8777, state = ''Maharashtra''\<rparr>),
  (''delhi'', \<lparr>name = ''Delhi'', lat = 28.7041, lon = 77.1025, state = ''Delhi''\<rparr>),
  (''bangalore'', \<lparr>name = ''Bangalore'', lat = 12.9716, lon = 77.5946, state = ''Karnataka''\<rparr>),
  (''hyderabad'', \<lparr>name = ''Hyderabad'', lat = 17.385, lon = 78.4867, state = ''Telangana''\<rparr>),
  (''chennai'', \<lparr>name = ''Chennai'', lat = 13.0827, lon = 80.2707, state = ''Tamil Nadu''\<rparr>),
  (''kolkata'', \<lparr>name = ''Kolkata'', lat = 22.5726, lon = 88.3639, state = ''West Bengal''\<rparr>),
  (''pune'', \<lparr>name = ''Pune'', lat = 18.5204, lon = 73.8567, state = ''Maharashtra''\<rparr>),
  (''ahmedabad'', \<lparr>name = ''Ahmedabad'', lat = 23.0225, lon = 72.5714, state = ''Gujarat''\<rparr>),
  (''surat'', \<lparr>name = ''Surat'', lat = 21.1702, lon = 72.8311, state = ''Gujarat''\<rparr>),
  (''jaipur'', \<lparr>name = ''Jaipur'', lat = 26.9124, lon = 75.7873, state = ''Rajasthan''\<rparr>),
  (''lucknow'', \<lparr>name = ''Lucknow'', lat = 26.8467, lon = 80.9462, state = ''Uttar Pradesh''\<rparr>),
  (''kanpur'', \<lparr>name = ''Kanpur'', lat = 26.4499, lon = 80.3319, state = ''Uttar Pradesh''\<rparr>),
  (''nagpur'', \<lparr>name = ''Nagpur'', lat = 21.1458, lon = 79.0882, state = ''Maharashtra''\<rparr>),
  (''indore'', \<lparr>name = ''Indore'', lat = 22.7196, lon = 75.8577, state = ''Madhya Pradesh''\<rparr>),
  (''thane'', \<lparr>name = ''Thane'', lat = 19.2183, lon = 72.9781, state = ''Maharashtra''\<rparr>),
  (''bhopal'', \<lparr>name = ''Bhopal'', lat = 23.2599, lon = 77.4126, state = ''Madhya Pradesh''\<rparr>),
  (''visakhapatnam'', \<lparr>name = ''Visakhapatnam'', lat = 17.6869, lon = 83.2185, state = ''Andhra Pradesh''\<rparr>),
  (''patna'', \<lparr>name = ''Patna'', lat = 25.5941, lon = 85.1376, state = ''Bihar''\<rparr>),
  (''vadodara'', \<lparr>name = ''Vadodara'', lat = 22.3072, lon = 73.1812, state = ''Gujarat''\<rparr>),
  (''ghaziabad'', \<lparr>name = ''Ghaziabad'', lat = 28.6692, lon = 77.4538, state = ''Uttar Pradesh''\<rparr>),
  (''ludhiana'', \<lparr>name = ''Ludhiana'', lat = 30.901, lon = 75.8573, state = ''Punjab''\<rparr>),
  (''agra'', \<lparr>name = ''Agra'', lat = 27.1767, lon = 78.0081, state = ''Uttar Pradesh''\<rparr>),
  (''nashik'', \<lparr>name = ''Nashik'', lat = 19.9975, lon = 73.7898, state = ''Maharashtra''\<rparr>),
  (''faridabad'', \<lparr>name = ''Faridabad'', lat = 28.4089, lon = 77.3178, state = ''Haryana''\<rparr>),
  (''meerut'', \<lparr>name = ''Meerut'', lat = 28.9845, lon = 77.7064, state = ''Uttar Pradesh''\<rparr>),
  (''rajkot'', \<lparr>name = ''Rajkot'', lat = 22.3039, lon = 70.8022, state = ''Gujarat''\<rparr>),
  (''varanasi'', \<lparr>name = ''Varanasi'', lat = 25.3176, lon = 82.9739, state = ''Uttar Pradesh''\<rparr>),
  (''amritsar'', \<lparr>name = ''Amritsar'', lat = 31.634, lon = 74.8723, state = ''Punjab''\<rparr>),
  (''allahabad'', \<lparr>name = ''Allahabad'', lat = 25.4358, lon = 81.8463, state = ''Uttar Pradesh''\<rparr>),
  (''ranchi'', \<lparr>name = ''Ranchi'', lat = 23.3441, lon = 85.3096, state = ''Jharkhand''\<rparr>),
  (''howrah'', \<lparr>name = ''Howrah'', lat = 22.5958, lon = 88.2636, state = ''West Bengal''\<rparr>),
  (''coimbatore'', \<lparr>name = ''Coimbatore'', lat = 11.0168, lon = 76.9558, state = ''Tamil Nadu''\<rparr>),
  (''jabalpur'', \<lparr>name = ''Jabalpur'', lat = 23.1815, lon = 79.9864, state = ''Madhya Pradesh''\<rparr>),
  (''gwalior'', \<lparr>name = ''Gwalior'', lat = 26.2183, lon = 78.1828, state = ''Madhya Pradesh''\<rparr>),
  (''vijayawada'', \<lparr>name = ''Vijayawada'', lat = 16.5062, lon = 80.648, state = ''Andhra Pradesh''\<rparr>),
  (''jodhpur'', \<lparr>name = ''Jodhpur'', lat = 26.2389, lon = 73.0243, state = ''Rajasthan''\<rparr>),
  (''madurai'', \<lparr>name = ''Madurai'', lat = 9.9252, lon = 78.1198, state = ''Tamil Nadu''\<rparr>),
  (''raipur'', \<lparr>name = ''Raipur'', lat = 21.2514, lon = 81.6296, state = ''Chhattisgarh''\<rparr>),
  (''kota'', \<lparr>name = ''Kota'', lat = 25.2138, lon = 75.8648, state = ''Rajasthan''\<rparr>),
  (''chandigarh'', \<lparr>name = ''Chandigarh'', lat = 30.7333, lon = 76.7794, state = ''Chandigarh''\<rparr>),
  (''guwahati'', \<lparr>name = ''Guwahati'', lat = 26.1445, lon = 91.7362, state = ''Assam''\<rparr>),
  (''thiruvananthapuram'', \<lparr>name = ''Thiruvananthapuram'', lat = 8.5241, lon = 76.9366, state = ''Kerala''\<rparr>),
  (''bhubaneswar'', \<lparr>name = ''Bhubaneswar'', lat = 20.2961, lon = 85.8245, state = ''Odisha''\<rparr>),
  (''puducherry'', \<lparr>name = ''Puducherry'', lat = 11.9416, lon = 79.8083, state = ''Puducherry''\<rparr>),
  (''panaji'', \<lparr>name = ''Panaji'', lat = 15.4909, lon = 73.8278, state = ''Goa''\<rparr>),
  (''dispur'', \<lparr>name = ''Dispur'', lat = 26.1433, lon = 91.7898, state = ''Assam''\<rparr>),
  (''imphal'', \<lparr>name = ''Imphal'', lat = 24.817, lon = 93.9368, state = ''Manipur''\<rparr>),
  (''shillong'', \<lparr>name = ''Shillong'', lat = 25.5788, lon = 91.8933, state = ''Meghalaya''\<rparr>),
  (''aizawl'', \<lparr>name = ''Aizawl'', lat = 23.7307, lon = 92.7173, state = ''Mizoram''\<rparr>),
  (''kohima'', \<lparr>name = ''Kohima'', lat = 25.6751, lon = 94.1086, state = ''Nagaland''\<rparr>),
  (''itanagar'', \<lparr>name = ''Itanagar'', lat = 27.0844, lon = 93.6053, state = ''Arunachal Pradesh''\<rparr>),
  (''port-blair'', \<lparr>name = ''Port Blair'', lat = 11.6234, lon = 92.7265, state = ''Andaman and Nicobar''\<rparr>),
  (''silvassa'', \<lparr>name = ''Silvassa'', lat = 20.2737, lon = 73.0135, state = ''Dadra and Nagar Haveli''\<rparr>),
  (''shimla'', \<lparr>name = ''Shimla'', lat = 31.1048, lon = 77.1734, state = ''Himachal Pradesh''\<rparr>),
  (''manali'', \<lparr>name = ''Manali'', lat = 32.2396, lon = 77.1887, state = ''Himachal Pradesh''\<rparr>),
  (''dharamshala'', \<lparr>name = ''Dharamshala'', lat = 32.219, lon = 76.3234, state = ''Himachal Pradesh''\<rparr>),
  (''nainital'', \<lparr>name = ''Nainital'', lat = 29.3919, lon = 79.4542, state = ''Uttarakhand''\<rparr>),
  (''mussoorie'', \<lparr>name = ''Mussoorie'', lat = 30.4598, lon = 78.0644, state = ''Uttarakhand''\<rparr>),
  (''dehradun'', \<lparr>name = ''Dehradun'', lat = 30.3165, lon = 78.0322, state = ''Uttarakhand''\<rparr>),
  (''rishikesh'', \<lparr>name = ''Rishikesh'', lat = 30.0869, lon = 78.2676, state = ''Uttarakhand''\<rparr>),
  (''haridwar'', \<lparr>name = ''Haridwar'', lat = 29.9457, lon = 78.1642, state = ''Uttarakhand''\<rparr>),
  (''darjeeling'', \<lparr>name = ''Darjeeling'', lat = 27.041, lon = 88.2663, state = ''West Bengal''\<rparr>),
  (''gangtok'', \<lparr>name = ''Gangtok'', lat = 27.3389, lon = 88.6065, state = ''Sikkim''\<rparr>),
  (''srinagar'', \<lparr>name = ''Srinagar'', lat = 34.0837, lon = 74.7973, state = ''Jammu and Kashmir''\<rparr>),
  (''leh'', \<lparr>name = ''Leh'', lat = 34.1526, lon = 77.5771, state = ''Ladakh''\<rparr>),
  (''ooty'', \<lparr>name = ''Ooty'', lat = 11.4102, lon = 76.695, state = ''Tamil Nadu''\<rparr>),
  (''kodaikanal'', \<lparr>name = ''Kodaikanal'', lat = 10.2381, lon = 77.4892, state = ''Tamil Nadu''\<rparr>),
  (''munnar'', \<lparr>name = ''Munnar'', lat = 10.0889, lon = 77.0595, state = ''Kerala''\<rparr>),
  (''wayanad'', \<lparr>name = ''Wayanad'', lat = 11.6054, lon = 76.0837, state = ''Kerala''\<rparr>),
  (''mount-abu'', \<lparr>name = ''Mount Abu'', lat = 24.5926, lon = 72.7156, state = ''Rajasthan''\<rparr>),
  (''mahabaleshwar'', \<lparr>name = ''Mahabaleshwar'', lat = 17.9246, lon = 73.6577, state = ''Maharashtra''\<rparr>),
  (''lonavala'', \<lparr>name = ''Lonavala'', lat = 18.7537, lon = 73.4086, state = ''Maharashtra''\<rparr>),
  (''coorg'', \<lparr>name = ''Coorg'', lat = 12.3375, lon = 75.8069, state = ''Karnataka''\<rparr>),
  (''kochi'', \<lparr>name = ''Kochi'', lat = 9.9312, lon = 76.2673, state = ''Kerala''\<rparr>),
  (''mysore'', \<lparr>name = ''Mysore'', lat = 12.2958, lon = 76.6394, state = ''Karnataka''\<rparr>),
  (''mangalore'', \<lparr>name = ''Mangalore'', lat = 12.9141, lon = 74.856, state = ''Karnataka''\<rparr>),
  (''hubli'', \<lparr>name = ''Hubli'', lat = 15.3647, lon = 75.124, state = ''Karnataka''\<rparr>),
  (''belgaum'', \<lparr>name = ''Belgaum'', lat = 15.8497, lon = 74.4977, state = ''Karnataka''\<rparr>),
  (''tirupati'', \<lparr>name = ''Tirupati'', lat = 13.6288, lon = 79.4192, state = ''Andhra Pradesh''\<rparr>),
  (''guntur'', \<lparr>name = ''Guntur'', lat = 16.3067, lon = 80.4365, state = ''Andhra Pradesh''\<rparr>),
  (''nellore'', \<lparr>name = ''Nellore'', lat = 14.4426, lon = 79.9865, state = ''Andhra Pradesh''\<rparr>),
  (''tirunelveli'', \<lparr>name = ''Tirunelveli'', lat = 8.7139, lon = 77.7567, state = ''Tamil Nadu''\<rparr>),
  (''salem'', \<lparr>name = ''Salem'', lat = 11.6643, lon = 78.146, state = ''Tamil Nadu''\<rparr>),
  (''tiruchirappalli'', \<lparr>name = ''Tiruchirappalli'', lat = 10.7905, lon = 78.7047, state = ''Tamil Nadu''\<rparr>),
  (''vellore'', \<lparr>name = ''Vellore'', lat = 12.9165, lon = 79.1325, state = ''Tamil Nadu''\<rparr>),
  (''erode'', \<lparr>name = ''Erode'', lat = 11.341, lon = 77.7172, state = ''Tamil Nadu''\<rparr>),
  (''thrissur'', \<lparr>name = ''Thrissur'', lat = 10.5276, lon = 76.2144, state = ''Kerala''\<rparr>),
  (''kollam'', \<lparr>name = ''Kollam'', lat = 8.8932, lon = 76.6141, state = ''Kerala''\<rparr>),
  (''kozhikode'', \<lparr>name = ''Kozhikode'', lat = 11.2588, lon = 75.7804, state = ''Kerala''\<rparr>),
  (''palakkad'', \<lparr>name = ''Palakkad'', lat = 10.7733, lon = 76.6547, state = ''Kerala''\<rparr>),
  (''alappuzha'', \<lparr>name = ''Alappuzha'', lat = 9.4981, lon = 76.3388, state = ''Kerala''\<rparr>),
  (''noida'', \<lparr>name = ''Noida'', lat = 28.5355, lon = 77.391, state = ''Uttar Pradesh''\<rparr>),
  (''gurugram'', \<lparr>name = ''Gurugram'', lat = 28.4595, lon = 77.0266, state = ''Haryana''\<rparr>),
  (''rohtak'', \<lparr>name = ''Rohtak'', lat = 28.8955, lon = 76.6066, state = ''Haryana''\<rparr>),
  (''panipat'', \<lparr>name = ''Panipat'', lat = 29.3909, lon = 76.9635, state = ''Haryana''\<rparr>),
  (''karnal'', \<lparr>name = ''Karnal'', lat = 29.6857, lon = 76.9905, state = ''Haryana''\<rparr>),
  (''ambala'', \<lparr>name = ''Ambala'', lat = 30.3782, lon = 76.7767, state = ''Haryana''\<rparr>),
  (''patiala'', \<lparr>name = ''Patiala'', lat = 30.3398, lon = 76.3869, state = ''Punjab''\<rparr>),
  (''jalandhar'', \<lparr>name = ''Jalandhar'', lat = 31.326, lon = 75.5762, state = ''Punjab''\<rparr>),
  (''bathinda'', \<lparr>name = ''Bathinda'', lat = 30.211, lon = 74.9455, state = ''Punjab''\<rparr>),
  (''mohali'', \<lparr>name = ''Mohali'', lat = 30.7046, lon = 76.7179, state = ''Punjab''\<rparr>),
  (''jammu'', \<lparr>name = ''Jammu'', lat = 32.7266, lon = 74.857, state = ''Jammu and Kashmir''\<rparr>),
  (''udaipur'', \<lparr>name = ''Udaipur'', lat = 24.5854, lon = 73.7125, state = ''Rajasthan''\<rparr>),
  (''ajmer'', \<lparr>name = ''Ajmer'', lat = 26.4499, lon = 74.6399, state = ''Rajasthan''\<rparr>),
  (''bikaner'', \<lparr>name = ''Bikaner'', lat = 28.0229, lon = 73.3119, state = ''Rajasthan''\<rparr>),
  (''alwar'', \<lparr>name = ''Alwar'', lat = 27.553, lon = 76.6346, state = ''Rajasthan''\<rparr>),
  (''bharatpur'', \<lparr>name = ''Bharatpur'', lat = 27.2152, lon = 77.4899, state = ''Rajasthan''\<rparr>),
  (''cuttack'', \<lparr>name = ''Cuttack'', lat = 20.4625, lon = 85.883, state = ''Odisha''\<rparr>),
  (''puri'', \<lparr>name = ''Puri'', lat = 19.8135, lon = 85.8312, state = ''Odisha''\<rparr>),
  (''rourkela'', \<lparr>name = ''Rourkela'', lat = 22.2604, lon = 84.8536, state = ''Odisha''\<rparr>),
  (''jamshedpur'', \<lparr>name = ''Jamshedpur'', lat = 22.8046, lon = 86.2029, state = ''Jharkhand''\<rparr>),
  (''dhanbad'', \<lparr>name = ''Dhanbad'', lat = 23.7957, lon = 86.4304, state = ''Jharkhand''\<rparr>),
  (''bokaro'', \<lparr>name = ''Bokaro'', lat = 23.6693, lon = 86.1511, state = ''Jharkhand''\<rparr>),
  (''durgapur'', \<lparr>name = ''Durgapur'', lat = 23.5204, lon = 87.3119, state = ''West Bengal''\<rparr>),
  (''asansol'', \<lparr>name = ''Asansol'', lat = 23.6739, lon = 86.9524, state = ''West Bengal''\<rparr>),
  (''siliguri'', \<lparr>name = ''Siliguri'', lat = 26.7271, lon = 88.3953, state = ''West Bengal''\<rparr>),
  (''gaya'', \<lparr>name = ''Gaya'', lat = 24.7955, lon = 85.0002, state = ''Bihar''\<rparr>),
  (''bhagalpur'', \<lparr>name = ''Bhagalpur'', lat = 25.2425, lon = 86.9842, state = ''Bihar''\<rparr>),
  (''muzaffarpur'', \<lparr>name = ''Muzaffarpur'', lat = 26.1225, lon = 85.3906, state = ''Bihar''\<rparr>),
  (''bilaspur'', \<lparr>name = ''Bilaspur'', lat = 22.0797, lon = 82.1409, state = ''Chhattisgarh''\<rparr>),
  (''korba'', \<lparr>name = ''Korba'', lat = 22.3595, lon = 82.7501, state = ''Chhattisgarh''\<rparr>),
  (''bhilai'', \<lparr>name = ''Bhilai'', lat = 21.2095, lon = 81.3785, state = ''Chhattisgarh''\<rparr>),
  (''ujjain'', \<lparr>name = ''Ujjain'', lat = 23.1765, lon = 75.7885, state = ''Madhya Pradesh''\<rparr>),
  (''sagar'', \<lparr>name = ''Sagar'', lat = 23.8388, lon = 78.7378, state = ''Madhya Pradesh''\<rparr>),
  (''dewas'', \<lparr>name = ''Dewas'', lat = 22.9676, lon = 76.0534, state = ''Madhya Pradesh''\<rparr>),
  (''cherrapunji'', \<lparr>name = ''Cherrapunji'', lat = 25.2959, lon = 91.7324, state = ''Meghalaya''\<rparr>),
  (''mawsynram'', \<lparr>name = ''Mawsynram'', lat = 25.2975, lon = 91.5805, state = ''Meghalaya''\<rparr>),
  (''mahabalipuram'', \<lparr>name = ''Mahabalipuram'', lat = 12.6269, lon = 80.1926, state = ''Tamil Nadu''\<rparr>),
  (''pondicherry'', \<lparr>name = ''Pondicherry'', lat = 11.9416, lon = 79.8083, state = ''Puducherry''\<rparr>),
  (''kannur'', \<lparr>name = ''Kannur'', lat = 11.8745, lon = 75.3704, state = ''Kerala''\<rparr>),
  (''kottayam'', \<lparr>name = ''Kottayam'', lat = 9.5916, lon = 76.5222, state = ''Kerala''\<rparr>),
  (''idukki'', \<lparr>name = ''Idukki'', lat = 9.9189, lon = 77.1025, state = ''Kerala''\<rparr>),
  (''udupi'', \<lparr>name = ''Udupi'', lat = 13.3409, lon = 74.7421, state = ''Karnataka''\<rparr>),
  (''karwar'', \<lparr>name = ''Karwar'', lat = 14.8137, lon = 74.129, state = ''Karnataka''\<rparr>),
  (''ratnagiri'', \<lparr>name = ''Ratnagiri'', lat = 16.9944, lon = 73.3, state = ''Maharashtra''\<rparr>),
  (''alibag'', \<lparr>name = ''Alibag'', lat = 18.6414, lon = 72.8722, state = ''Maharashtra''\<rparr>),
  (''amboli'', \<lparr>name = ''Amboli'', lat = 15.9589, lon = 74.0047, state = ''Maharashtra''\<rparr>),
  (''tezpur'', \<lparr>name = ''Tezpur'', lat = 26.6338, lon = 92.8, state = ''Assam''\<rparr>),
  (''dibrugarh'', \<lparr>name = ''Dibrugarh'', lat = 27.4728, lon = 94.912, state = ''Assam''\<rparr>),
  (''silchar'', \<lparr>name = ''Silchar'', lat = 24.8333, lon = 92.7789, state = ''Assam''\<rparr>),
  (''agartala'', \<lparr>name = ''Agartala'', lat = 23.8315, lon = 91.2868, state = ''Tripura''\<rparr>),
  (''gulmarg'', \<lparr>name = ''Gulmarg'', lat = 34.0484, lon = 74.3805, state = ''Jammu and Kashmir''\<rparr>),
  (''pahalgam'', \<lparr>name = ''Pahalgam'', lat = 34.0161, lon = 75.315, state = ''Jammu and Kashmir''\<rparr>),
  (''sonamarg'', \<lparr>name = ''Sonamarg'', lat = 34.3, lon = 75.2833, state = ''Jammu and Kashmir''\<rparr>),
  (''dalhousie'', \<lparr>name = ''Dalhousie'', lat = 32.5448, lon = 75.947, state = ''Himachal Pradesh''\<rparr>),
  (''kullu'', \<lparr>name = ''Kullu'', lat = 31.9578, lon = 77.1093, state = ''Himachal Pradesh''\<rparr>),
  (''spiti'', \<lparr>name = ''Spiti'', lat = 32.2466, lon = 78.0336, state = ''Himachal Pradesh''\<rparr>),
  (''keylong'', \<lparr>name = ''Keylong'', lat = 32.5721, lon = 77.0353, state = ''Himachal Pradesh''\<rparr>),
  (''chamba'', \<lparr>name = ''Chamba'', lat = 32.5562, lon = 76.1265, state = ''Himachal Pradesh''\<rparr>),
  (''auli'', \<lparr>name = ''Auli'', lat = 30.5323, lon = 79.5833, state = ''Uttarakhand''\<rparr>),
  (''kedarnath'', \<lparr>name = ''Kedarnath'', lat = 30.7346, lon = 79.0669, state = ''Uttarakhand''\<rparr>),
  (''badrinath'', \<lparr>name = ''Badrinath'', lat = 30.7433, lon = 79.4938, state = ''Uttarakhand''\<rparr>),
  (''kargil'', \<lparr>name = ''Kargil'', lat = 34.5539, lon = 76.1313, state = ''Ladakh''\<rparr>),
  (''tawang'', \<lparr>name = ''Tawang'', lat = 27.586, lon = 91.8597, state = ''Arunachal Pradesh''\<rparr>),
  (''sandakphu'', \<lparr>name = ''Sandakphu'', lat = 27.1095, lon = 88.0146, state = ''West Bengal''\<rparr>),
  (''yumthang'', \<lparr>name = ''Yumthang Valley'', lat = 27.81, lon = 88.7114, state = ''Sikkim''\<rparr>)
  ]"

datatype error =
    CityNotFound string   \<comment> \<open>\<open>ValueError("City '...' not found in database")\<close>\<close>
  | OSError string        \<comment> \<open>\<open>to_csv\<close> could not write the file of this path\<close>
  | NegativeDimensions    \<comment> \<open>numpy's \<open>ValueError\<close> for a negative sample size\<close>
  | OverflowError         \<comment> \<open>\<open>timedelta(days=...)\<close> or a date outside \<open>datetime\<close>'s range\<close>
  | OutOfBoundsDatetime   \<comment> \<open>pandas cannot represent a date of \<open>date_range\<close>\<close>

text \<open>\<open>get_city_list\<close>: the display names, sorted as Python sorts strings (by code point).\<close>

definition get_city_list :: "string list" where
  "get_city_list = sort (map (\<lambda>(key, info). name info) INDIAN_CITIES)"

text \<open>The \<open>for\<close> loop of \<open>get_city_info\<close>: the first entry that matches is returned.\<close>

fun find_city :: "string \<Rightarrow> (string \<times> city) list \<Rightarrow> city option" where
  "find_city city_key [] = None"
| "find_city city_key ((key, info) # rest) =
     (if remove_char CHR '' '' (lower (name info)) = city_key \<or> key = city_key
      then Some info else find_city city_key rest)"

definition get_city_info :: "string \<Rightarrow> error + city" where
  "get_city_info city_name =
     (let city_key = remove_char CHR ''-'' (remove_char CHR '' '' (lower city_name))
      in case find_city city_key INDIAN_CITIES of
           Some info \<Rightarrow> Inr info
         | None \<Rightarrow> Inl (CityNotFound city_name))"

section \<open>Data frames, the environment and the state\<close>

text \<open>
  A metric value is a \<^typ>\<open>real option\<close>: \<open>None\<close> is pandas' missing value (NaN). Floating
  point numbers are modelled as reals. A frame has its dates (the index, or the \<open>date\<close>
  column) and the six metric columns of a Meteostat daily frame; a column that the frame does
  not have is \<open>None\<close>. The stand-alone script renames the columns (\<open>tavg\<close> to
  \<open>temperature\<close>, \<open>prcp\<close> to \<open>precipitation\<close> and so on); the fields keep the Meteostat names.
  Points in time are microseconds since the epoch, as \<open>datetime\<close> resolves them.
\<close>

type_synonym column = "real option list"

record frame =
  dates :: "int list"
  tavg :: "column option"
  tmin :: "column option"
  tmax :: "column option"
  prcp :: "column option"
  wspd :: "column option"
  pres :: "column option"

definition df_empty :: "frame \<Rightarrow> bool" where
  "df_empty df = (dates df = [])"

definition DAY :: int where
  "DAY = 86400000000"

text \<open>
  \<open>t - timedelta(days=days)\<close>. \<open>timedelta\<close> takes at most 999999999 days in either
  direction, and the difference must lie between \<open>datetime.min\<close> (the start of the year 1)
  and \<open>datetime.max\<close> (the last microsecond of the year 9999); otherwise Python raises
  \<open>OverflowError\<close>.
\<close>

definition datetime_min :: int where
  "datetime_min = - 62135596800000000"

definition datetime_max :: int where
  "datetime_max = 253402300799999999"

definition minus_days :: "int \<Rightarrow> int \<Rightarrow> error + int" where
  "minus_days t days =
     (if days < - 999999999 \<or> 999999999 < days then Inl OverflowError
      else if t - days * DAY < datetime_min \<or> datetime_max < t - days * DAY then Inl OverflowError
      else Inr (t - days * DAY))"

text \<open>The value of \<open>df.attrs['meteostat_source']\<close>, with the fields its text is formatted from.\<close>

datatype source_tag =
    FileCache string              \<comment> \<open>\<open>"File cache: {city_name}"\<close>\<close>
  | Meteostat string real real    \<comment> \<open>\<open>"Meteostat: {city_name} ({lat}, {lon})"\<close>\<close>
  | NearbyStation real real       \<comment> \<open>\<open>"Meteostat: Nearby station ({lat}, {lon})"\<close>\<close>
  | DelhiFallback                 \<comment> \<open>\<open>"Meteostat: Delhi fallback (28.70, 77.10)"\<close>\<close>
  | Synthetic string              \<comment> \<open>\<open>"Synthetic data (estimated for {city_name})"\<close>\<close>

text \<open>
  What the program reads from outside: the clock, the Meteostat service
  (\<open>Daily(Point(lat, lon), start, end).fetch()\<close>), whether a path can be written, whether the
  \<open>meteostat\<close> package can be imported, the calendar of \<open>datetime\<close>, the points in time
  that pandas can represent as a \<open>Timestamp\<close>, numpy's floating point sine and \<open>np.pi\<close>,
  and the samplers of \<open>numpy.random\<close>, each drawing one value from a generator state of type
  \<open>'s\<close>.
\<close>

record 's env =
  now :: int
  live :: "real \<Rightarrow> real \<Rightarrow> int \<Rightarrow> int \<Rightarrow> frame"
  can_write :: "string \<Rightarrow> bool"
  meteostat_ok :: bool
  tm_yday :: "int \<Rightarrow> int"
  month_of :: "int \<Rightarrow> int"
  timestamp_ok :: "int \<Rightarrow> bool"
  np_sin :: "real \<Rightarrow> real"
  np_pi :: real
  rnd_seed :: "nat \<Rightarrow> 's"
  rnd_normal :: "real \<Rightarrow> real \<Rightarrow> 's \<Rightarrow> real \<times> 's"
  rnd_uniform :: "real \<Rightarrow> real \<Rightarrow> 's \<Rightarrow> real \<times> 's"
  rnd_exponential :: "real \<Rightarrow> 's \<Rightarrow> real \<times> 's"

record cache_file =
  mtime :: int
  content :: frame

text \<open>
  What the program changes: the files of the cache directory, the queries sent to Meteostat
  (in the order they were sent) and the state of numpy's global generator.
\<close>

record 's world =
  files :: "string \<rightharpoonup> cache_file"
  queries :: "(real \<times> real \<times> int \<times> int) list"
  rng_state :: 's

record loader =
  data_dir :: string
  cache_days :: int

definition query :: "'s env \<Rightarrow> real \<Rightarrow> real \<Rightarrow> int \<Rightarrow> int \<Rightarrow> 's world \<Rightarrow> frame \<times> 's world" where
  "query E la lo start_date end_date w =
     (live E la lo start_date end_date,
      w\<lparr>queries := queries w @ [(la, lo, start_date, end_date)]\<rparr>)"

subsection \<open>numpy and pandas operations\<close>

text \<open>\<open>size\<close> draws in sequence from the generator, as \<open>np.random.normal(m, s, size)\<close> does.\<close>

fun draws :: "('s \<Rightarrow> real \<times> 's) \<Rightarrow> nat \<Rightarrow> 's \<Rightarrow> real list \<times> 's" where
  "draws f 0 g = ([], g)"
| "draws f (Suc n) g =
     (case f g of (x, g1) \<Rightarrow> (case draws f n g1 of (xs, g2) \<Rightarrow> (x # xs, g2)))"

text \<open>An elementwise operation on two arrays of the same length.\<close>

definition zipw :: "(real \<Rightarrow> real \<Rightarrow> real) \<Rightarrow> real list \<Rightarrow> real list \<Rightarrow> real list" where
  "zipw f xs ys = map (\<lambda>(x, y). f x y) (zip xs ys)"

definition clip :: "real \<Rightarrow> real \<Rightarrow> real \<Rightarrow> real" where
  "clip lo hi x = min hi (max lo x)"

text \<open>\<open>round(1)\<close>: numpy scales by ten, rounds half to even and scales back.\<close>

definition rint :: "real \<Rightarrow> int" where
  "rint x =
     (let f = \<lfloor>x\<rfloor>; d = x - of_int f
      in if d < 1 / 2 then f else if 1 / 2 < d then f + 1 else if even f then f else f + 1)"

definition round1 :: "real \<Rightarrow> real" where
  "round1 x = of_int (rint (x * 10)) / 10"

definition rounded_column :: "real list \<Rightarrow> column option" where
  "rounded_column xs = Some (map (\<lambda>x. Some (round1 x)) xs)"

fun cumsum_from :: "real \<Rightarrow> real list \<Rightarrow> real list" where
  "cumsum_from acc [] = []"
| "cumsum_from acc (x # xs) = (acc + x) # cumsum_from (acc + x) xs"

definition cumsum :: "real list \<Rightarrow> real list" where
  "cumsum xs = cumsum_from 0 xs"

definition mean :: "real list \<Rightarrow> real" where
  "mean xs = sum_list xs / real (length xs)"

text \<open>\<open>pd.date_range(start, end, freq='D')\<close>: from \<open>start\<close> in steps of a day, up to \<open>end\<close> included.\<close>

definition date_range :: "int \<Rightarrow> int \<Rightarrow> int list" where
  "date_range start_date end_date =
     (if end_date < start_date then []
      else map (\<lambda>k. start_date + int k * DAY) [0..<nat ((end_date - start_date) div DAY + 1)])"

text \<open>\<open>Series.fillna\<close>, \<open>ffill\<close>, \<open>bfill\<close> and \<open>mean\<close> (which skips missing values).\<close>

definition fillna :: "real \<Rightarrow> column \<Rightarrow> column" where
  "fillna v col = map (\<lambda>x. case x of None \<Rightarrow> Some v | Some y \<Rightarrow> Some y) col"

fun ffill_from :: "real option \<Rightarrow> column \<Rightarrow> column" where
  "ffill_from prev [] = []"
| "ffill_from prev (None # xs) = prev # ffill_from prev xs"
| "ffill_from prev (Some v # xs) = Some v # ffill_from (Some v) xs"

definition ffill :: "column \<Rightarrow> column" where
  "ffill col = ffill_from None col"

fun bfill :: "column \<Rightarrow> column" where
  "bfill [] = []"
| "bfill (Some v # xs) = Some v # bfill xs"
| "bfill (None # xs) = (case bfill xs of [] \<Rightarrow> [None] | y # ys \<Rightarrow> y # y # ys)"

definition notna_any :: "column \<Rightarrow> bool" where
  "notna_any col = list_ex (\<lambda>x. x \<noteq> None) col"

definition column_mean :: "column \<Rightarrow> real" where
  "column_mean col = mean (map the (filter (\<lambda>x. x \<noteq> None) col))"

text \<open>\<open>sub in s\<close> on strings.\<close>

fun contains :: "string \<Rightarrow> string \<Rightarrow> bool" where
  "contains sub [] = (sub = [])"
| "contains sub (c # cs) = (take (length sub) (c # cs) = sub \<or> contains sub cs)"

text \<open>\<open>os.path.join\<close> of two components (POSIX).\<close>

definition path_join :: "string \<Rightarrow> string \<Rightarrow> string" where
  "path_join a b =
     (if b \<noteq> [] \<and> hd b = CHR ''/'' then b
      else if a = [] \<or> last a = CHR ''/'' then a @ b
      else a @ ''/'' @ b)"

section \<open>The loader of the dashboard (utils/data\_loader.py)\<close>

subsection \<open>\<open>_generate_synthetic_data\<close>\<close>

text \<open>
  \<open>pd.date_range\<close> raises \<open>OutOfBoundsDatetime\<close> when pandas cannot represent the start or
  the end of the window as a \<open>Timestamp\<close>.
\<close>

definition hill_stations :: "string list" where
  "hill_stations = [
    ''shimla'', ''manali'', ''kullu'', ''dalhousie'', ''dharamshala'', ''mcleodganj'',
    ''dehradun'', ''mussoorie'', ''nainital'', ''almora'', ''ranikhet'',
    ''ooty'', ''kodaikanal'', ''munnar'', ''darjeeling'', ''gangtok'',
    ''shillong'', ''cherrapunji'', ''mawsynram'', ''tawang'', ''aizawl'',
    ''mahabaleshwar'', ''lonavala'', ''panchgani'', ''coorg'', ''wayanad'',
    ''gulmarg'', ''pahalgam'', ''sonamarg'', ''leh'', ''kargil'',
    ''spitivalley'', ''keylong'', ''auli'', ''kedarnath'', ''badrinath'',
    ''sandakphu'', ''yumthangvalley'']"

definition coastal_cities :: "string list" where
  "coastal_cities = [
    ''mumbai'', ''goa'', ''kochi'', ''thiruvananthapuram'', ''kozhikode'',
    ''mangalore'', ''udupi'', ''karwar'', ''ratnagiri'', ''alibag'',
    ''chennai'', ''visakhapatnam'', ''puducherry'', ''mahabalipuram'',
    ''portblair'', ''panjim'', ''vasco'', ''margao'']"

definition hot_dry_cities :: "string list" where
  "hot_dry_cities = [
    ''jaisalmer'', ''bikaner'', ''jodhpur'', ''ajmer'', ''udaipur'',
    ''ahmedabad'', ''rajkot'', ''surat'', ''vadodara'']"

text \<open>The climate zone: \<open>(base_temp, temp_variation)\<close>.\<close>

definition climate_zone :: "string \<Rightarrow> real \<Rightarrow> real \<times> real" where
  "climate_zone city_key la =
     (if city_key \<in> set hill_stations \<or> contains ''hill'' city_key \<or> contains ''ganj'' city_key
      then (if la > 32 then (10, 12) else if la > 28 then (18, 10) else (20, 6))
      else if city_key \<in> set coastal_cities then (28, 4)
      else if city_key \<in> set hot_dry_cities then (32, 14)
      else (if la > 30 then (15, 15)
            else if la > 25 then (25, 12)
            else if la > 20 then (28, 8)
            else if la > 15 then (27, 6)
            else (28, 5)))"

text \<open>The monsoon factor of a day: the first component in the months 6 to 9, else the second.\<close>

definition monsoon_pair :: "string \<Rightarrow> real \<Rightarrow> real \<times> real" where
  "monsoon_pair city_key la =
     (if city_key \<in> set [''cherrapunji'', ''mawsynram''] then (3.0, 0.5)
      else if city_key \<in> set coastal_cities \<or> la < 20 then (1.5, 0.3)
      else (1.0, 0.2))"

definition monsoon_where :: "'s env \<Rightarrow> real \<times> real \<Rightarrow> int list \<Rightarrow> real list" where
  "monsoon_where E p ds =
     map (\<lambda>d. if 6 \<le> month_of E d \<and> month_of E d \<le> 9 then fst p else snd p) ds"

definition generate_synthetic_data ::
  "'s env \<Rightarrow> string \<Rightarrow> int \<Rightarrow> int \<Rightarrow> 's \<Rightarrow> error + frame \<times> 's" where
  "generate_synthetic_data E city_name start_date end_date g =
     (case get_city_info city_name of
        Inl e \<Rightarrow> Inl e
      | Inr city_info \<Rightarrow>
         if \<not> (timestamp_ok E start_date \<and> timestamp_ok E end_date) then Inl OutOfBoundsDatetime
         else
         (let la = lat city_info;
              city_key = remove_char CHR '' '' (lower city_name);
              zone = climate_zone city_key la;
              base_temp = fst zone;
              temp_variation = snd zone;
              ds = date_range start_date end_date;
              num_days = length ds;
              seasonal_factor = map (\<lambda>d. np_sin E (2 * np_pi E * (real_of_int (tm_yday E d) - 80) / 365)) ds;
              r1 = draws (rnd_normal E 0 2) num_days g;
              tavg_v = zipw (+) (map (\<lambda>s. base_temp + s * temp_variation) seasonal_factor) (fst r1);
              r2 = draws (rnd_uniform E 3 7) num_days (snd r1);
              tmax_v = zipw (+) tavg_v (fst r2);
              r3 = draws (rnd_uniform E 3 7) num_days (snd r2);
              tmin_v = zipw (-) tavg_v (fst r3);
              monsoon_factor = monsoon_where E (monsoon_pair city_key la) ds;
              r4 = draws (rnd_exponential E 5) num_days (snd r3);
              prcp_v = map (clip 0 150) (zipw (*) (fst r4) monsoon_factor);
              r5 = draws (rnd_uniform E 5 25) num_days (snd r4);
              base_pressure = (if city_key \<in> set hill_stations then 950 else 1013);
              r6 = draws (rnd_normal E base_pressure 5) num_days (snd r5)
          in Inr (\<lparr>dates = ds,
                    tavg = rounded_column tavg_v,
                    tmin = rounded_column tmin_v,
                    tmax = rounded_column tmax_v,
                    prcp = rounded_column prcp_v,
                    wspd = rounded_column (fst r5),
                    pres = rounded_column (fst r6)\<rparr>, snd r6)))"

subsection \<open>\<open>fetch_historical_data\<close>\<close>

text \<open>
  The cache file of a city. Its name ends in \<open>_30days.csv\<close> whatever \<open>days\<close> is. The file
  holds the frame that \<open>to_csv\<close> wrote and \<open>read_csv\<close> reads back.
\<close>

definition cache_path :: "loader \<Rightarrow> string \<Rightarrow> string" where
  "cache_path L city_name =
     path_join (data_dir L) (replace_char CHR '' '' CHR ''_'' (lower city_name) @ ''_30days.csv'')"

text \<open>\<open>file_age.days\<close>: the whole days of the difference, rounded down.\<close>

definition file_age_days :: "int \<Rightarrow> int \<Rightarrow> int" where
  "file_age_days t m = (t - m) div DAY"

text \<open>The check of the file cache (lines 308 to 314).\<close>

definition cache_lookup :: "'s env \<Rightarrow> loader \<Rightarrow> string \<Rightarrow> 's world \<Rightarrow> frame option" where
  "cache_lookup E L city_name w =
     (case files w (cache_path L city_name) of
        None \<Rightarrow> None
      | Some f \<Rightarrow> if file_age_days (now E) (mtime f) < cache_days L then Some (content f) else None)"

text \<open>
  The search for nearby stations (lines 333 to 345). The state of the loops is the frame last
  fetched, the source text and the world.
\<close>

fun try_lon ::
  "'s env \<Rightarrow> city \<Rightarrow> int \<Rightarrow> int \<Rightarrow> real \<Rightarrow> real list \<Rightarrow> frame \<times> source_tag \<times> 's world
   \<Rightarrow> frame \<times> source_tag \<times> 's world" where
  "try_lon E city_info start_date end_date lat_offset [] st = st"
| "try_lon E city_info start_date end_date lat_offset (lon_offset # rest) (df, src, w) =
     (case query E (lat city_info + lat_offset) (lon city_info + lon_offset) start_date end_date w of
        (df', w') \<Rightarrow>
          if \<not> df_empty df'
          then (df', NearbyStation (lat city_info + lat_offset) (lon city_info + lon_offset), w')
          else try_lon E city_info start_date end_date lat_offset rest (df', src, w'))"

fun try_lat ::
  "'s env \<Rightarrow> city \<Rightarrow> int \<Rightarrow> int \<Rightarrow> real list \<Rightarrow> frame \<times> source_tag \<times> 's world
   \<Rightarrow> frame \<times> source_tag \<times> 's world" where
  "try_lat E city_info start_date end_date [] st = st"
| "try_lat E city_info start_date end_date (lat_offset # rest) st =
     (case try_lon E city_info start_date end_date lat_offset [0.5, -0.5, 1.0, -1.0] st of
        (df', src', w') \<Rightarrow>
          if \<not> df_empty df' then (df', src', w')
          else try_lat E city_info start_date end_date rest (df', src', w'))"

text \<open>The live tiers and the synthetic tier (lines 324 to 360).\<close>

definition acquire ::
  "'s env \<Rightarrow> string \<Rightarrow> city \<Rightarrow> int \<Rightarrow> int \<Rightarrow> 's world
   \<Rightarrow> (error + frame \<times> source_tag) \<times> 's world" where
  "acquire E city_name city_info start_date end_date w =
     (case query E (lat city_info) (lon city_info) start_date end_date w of
        (df, w1) \<Rightarrow>
         (case (if df_empty df
                then try_lat E city_info start_date end_date [0.5, -0.5, 1.0, -1.0]
                       (df, Meteostat city_name (lat city_info) (lon city_info), w1)
                else (df, Meteostat city_name (lat city_info) (lon city_info), w1)) of
            (df2, src2, w2) \<Rightarrow>
              if df_empty df2 then
                (case get_city_info ''Delhi'' of
                   Inl e \<Rightarrow> (Inl e, w2)
                 | Inr delhi_info \<Rightarrow>
                    (case query E (lat delhi_info) (lon delhi_info) start_date end_date w2 of
                       (df3, w3) \<Rightarrow>
                         if df_empty df3 then
                           (case generate_synthetic_data E city_name start_date end_date (rng_state w3) of
                              Inl e \<Rightarrow> (Inl e, w3)
                            | Inr (dfs, g) \<Rightarrow> (Inr (dfs, Synthetic city_name), w3\<lparr>rng_state := g\<rparr>))
                         else (Inr (df3, DelhiFallback), w3)))
              else (Inr (df2, src2), w2)))"

definition fetch_historical_data ::
  "'s env \<Rightarrow> loader \<Rightarrow> string \<Rightarrow> int \<Rightarrow> 's world \<Rightarrow> (error + frame \<times> source_tag) \<times> 's world" where
  "fetch_historical_data E L city_name days w =
     (case cache_lookup E L city_name w of
        Some df \<Rightarrow> (Inr (df, FileCache city_name), w)
      | None \<Rightarrow>
         (case get_city_info city_name of
            Inl e \<Rightarrow> (Inl e, w)
          | Inr city_info \<Rightarrow>
             (let end_date = now E
              in case minus_days end_date days of
                   Inl e \<Rightarrow> (Inl e, w)
                 | Inr start_date \<Rightarrow>
                    (case acquire E city_name city_info start_date end_date w of
                       (Inl e, w1) \<Rightarrow> (Inl e, w1)
                     | (Inr (df, src), w1) \<Rightarrow>
                         if can_write E (cache_path L city_name)
                         then (Inr (df, src),
                               w1\<lparr>files := (files w1)(cache_path L city_name \<mapsto>
                                              \<lparr>mtime = now E, content = df\<rparr>)\<rparr>)
                         else (Inl (OSError (cache_path L city_name)), w1)))))"

section \<open>The stand-alone script (weather\_app\_standalone.py)\<close>

subsection \<open>\<open>_generate_synthetic_history\<close>\<close>

definition climate_by_latitude :: "real \<Rightarrow> real \<times> real" where
  "climate_by_latitude la =
     (if la > 30 then (18, 8)
      else if la > 25 then (25, 10)
      else if la > 20 then (28, 6)
      else (27, 5))"

text \<open>
  The generator seeds numpy's global generator with 42 first, so the state it is entered
  with is not read. The dates are \<open>end_date - timedelta(days=i)\<close> for \<open>i\<close> from
  \<open>days - 1\<close> down to 0, so the first of them raises \<open>OverflowError\<close> when it is out of
  range. A negative \<open>days\<close> makes the first sampler raise.
\<close>

definition generate_synthetic_history ::
  "'s env \<Rightarrow> real \<Rightarrow> real \<Rightarrow> int \<Rightarrow> 's \<Rightarrow> (error + frame) \<times> 's" where
  "generate_synthetic_history E la lo days g =
     (let g0 = rnd_seed E 42;
          zone = climate_by_latitude la;
          base_temp = fst zone;
          temp_variation = snd zone;
          end_date = now E;
          n = nat days;
          ds = map (\<lambda>i. end_date - int i * DAY) (rev [0..<n]);
          seasonal = map (\<lambda>d. np_sin E (2 * np_pi E * (real_of_int (tm_yday E d) - 80) / 365) * temp_variation) ds
      in if 0 < days \<and> isl (minus_days end_date (days - 1)) then (Inl OverflowError, g0)
         else if days < 0 then (Inl NegativeDimensions, g0)
         else
          (let r1 = draws (rnd_normal E 0 0.5) n g0;
               walk = cumsum (fst r1);
               random_walk = map (\<lambda>x. x - mean walk) walk;
               r2 = draws (rnd_normal E 0 2) n (snd r1);
               temperature = zipw (+) (zipw (+) (map (\<lambda>s. base_temp + s) seasonal) (fst r2))
                               (map (\<lambda>x. x * 0.3) random_walk);
               r3 = draws (rnd_uniform E 3 6) n (snd r2);
               temp_min = zipw (-) temperature (fst r3);
               r4 = draws (rnd_uniform E 3 6) n (snd r3);
               temp_max = zipw (+) temperature (fst r4);
               monsoon_factor = monsoon_where E (2.0, 0.3) ds;
               r5 = draws (rnd_exponential E 3) n (snd r4);
               precipitation = map (clip 0 50) (zipw (*) (fst r5) monsoon_factor);
               r6 = draws (rnd_uniform E 5 20) n (snd r5);
               r7 = draws (rnd_normal E 0 3) n (snd r6);
               wind_speed = map (clip 2 40) (zipw (+) (fst r6) (fst r7));
               r8 = draws (rnd_normal E 1013 5) n (snd r7)
           in (Inr \<lparr>dates = ds,
                     tavg = rounded_column temperature,
                     tmin = rounded_column temp_min,
                     tmax = rounded_column temp_max,
                     prcp = rounded_column precipitation,
                     wspd = rounded_column wind_speed,
                     pres = rounded_column (fst r8)\<rparr>, snd r8)))"

subsection \<open>\<open>_fetch_from_meteostat\<close>\<close>

text \<open>The cleanup of missing values (lines 343 to 359).\<close>

definition fill_temperature :: "column \<Rightarrow> column" where
  "fill_temperature col = fillna 25.0 (bfill (ffill col))"

definition fill_wind_pressure :: "real \<Rightarrow> column \<Rightarrow> column" where
  "fill_wind_pressure dflt col =
     (let c = bfill (ffill col)
      in fillna (if notna_any c then column_mean c else dflt) c)"

definition cleanup :: "frame \<Rightarrow> frame" where
  "cleanup df =
     df\<lparr>prcp := map_option (fillna 0) (prcp df),
        tavg := map_option fill_temperature (tavg df),
        tmin := map_option fill_temperature (tmin df),
        tmax := map_option fill_temperature (tmax df),
        wspd := map_option (fill_wind_pressure 10.0) (wspd df),
        pres := map_option (fill_wind_pressure 1013.0) (pres df)\<rparr>"

text \<open>The loop over the nearby points (lines 319 to 324); its state is the frame last fetched.\<close>

fun try_offsets ::
  "'s env \<Rightarrow> real \<Rightarrow> real \<Rightarrow> int \<Rightarrow> int \<Rightarrow> real list \<Rightarrow> frame \<times> 's world \<Rightarrow> frame \<times> 's world" where
  "try_offsets E la lo start_date end_date [] st = st"
| "try_offsets E la lo start_date end_date (offset # rest) (df, w) =
     (case query E (la + offset) (lo + offset) start_date end_date w of
        (df', w') \<Rightarrow>
          if \<not> df_empty df' then (df', w')
          else try_offsets E la lo start_date end_date rest (df', w'))"

text \<open>
  The handlers of \<open>ImportError\<close> and of \<open>Exception\<close> both fall back to the generator;
  the second one also catches the \<open>OverflowError\<close> of the start date and the "no data" of an
  empty answer.
\<close>

definition synthetic_fallback ::
  "'s env \<Rightarrow> real \<Rightarrow> real \<Rightarrow> int \<Rightarrow> 's world \<Rightarrow> (error + frame) \<times> 's world" where
  "synthetic_fallback E la lo days w =
     (case generate_synthetic_history E la lo days (rng_state w) of
        (r, g) \<Rightarrow> (r, w\<lparr>rng_state := g\<rparr>))"

definition fetch_from_meteostat ::
  "'s env \<Rightarrow> real \<Rightarrow> real \<Rightarrow> int \<Rightarrow> 's world \<Rightarrow> (error + frame) \<times> 's world" where
  "fetch_from_meteostat E la lo days w =
     (if \<not> meteostat_ok E then synthetic_fallback E la lo days w
      else
       (let end_date = now E
        in case minus_days end_date days of
             Inl e \<Rightarrow> synthetic_fallback E la lo days w
           | Inr start_date \<Rightarrow>
              (case query E la lo start_date end_date w of
                 (df, w1) \<Rightarrow>
                  (case (if df_empty df
                         then try_offsets E la lo start_date end_date [0.5, 1.0, -0.5, -1.0] (df, w1)
                         else (df, w1)) of
                     (df2, w2) \<Rightarrow>
                       if df_empty df2 then synthetic_fallback E la lo days w2
                       else (Inr (cleanup df2), w2)))))"

subsection \<open>The registry as \<open>get_city_info\<close> reads it\<close>

text \<open>
  For every entry, in order: the display name in lower case without spaces (as the loop of
  \<open>get_city_info\<close> compares it), the key and the display name. The table is derived from \<open>INDIAN_CITIES\<close> (lemma \<open>registry_table_eq\<close>) and
  serves the proofs about the registry.
\<close>

abbreviation display_key :: "city \<Rightarrow> string" where
  "display_key info \<equiv> remove_char CHR '' '' (lower (name info))"

definition registry_table :: "(string \<times> string \<times> string) list" where
  "registry_table = [
    (''mumbai'', ''mumbai'', ''Mumbai''), (''delhi'', ''delhi'', ''Delhi''),
    (''bangalore'', ''bangalore'', ''Bangalore''), (''hyderabad'', ''hyderabad'', ''Hyderabad''),
    (''chennai'', ''chennai'', ''Chennai''), (''kolkata'', ''kolkata'', ''Kolkata''),
    (''pune'', ''pune'', ''Pune''), (''ahmedabad'', ''ahmedabad'', ''Ahmedabad''),
    (''surat'', ''surat'', ''Surat''), (''jaipur'', ''jaipur'', ''Jaipur''),
    (''lucknow'', ''lucknow'', ''Lucknow''), (''kanpur'', ''kanpur'', ''Kanpur''),
    (''nagpur'', ''nagpur'', ''Nagpur''), (''indore'', ''indore'', ''Indore''),
    (''thane'', ''thane'', ''Thane''), (''bhopal'', ''bhopal'', ''Bhopal''),
    (''visakhapatnam'', ''visakhapatnam'', ''Visakhapatnam''), (''patna'', ''patna'', ''Patna''),
    (''vadodara'', ''vadodara'', ''Vadodara''), (''ghaziabad'', ''ghaziabad'', ''Ghaziabad''),
    (''ludhiana'', ''ludhiana'', ''Ludhiana''), (''agra'', ''agra'', ''Agra''),
    (''nashik'', ''nashik'', ''Nashik''), (''faridabad'', ''faridabad'', ''Faridabad''),
    (''meerut'', ''meerut'', ''Meerut''), (''rajkot'', ''rajkot'', ''Rajkot''),
    (''varanasi'', ''varanasi'', ''Varanasi''), (''amritsar'', ''amritsar'', ''Amritsar''),
    (''allahabad'', ''allahabad'', ''Allahabad''), (''ranchi'', ''ranchi'', ''Ranchi''),
    (''howrah'', ''howrah'', ''Howrah''), (''coimbatore'', ''coimbatore'', ''Coimbatore''),
    (''jabalpur'', ''jabalpur'', ''Jabalpur''), (''gwalior'', ''gwalior'', ''Gwalior''),
    (''vijayawada'', ''vijayawada'', ''Vijayawada''), (''jodhpur'', ''jodhpur'', ''Jodhpur''),
    (''madurai'', ''madurai'', ''Madurai''), (''raipur'', ''raipur'', ''Raipur''),
    (''kota'', ''kota'', ''Kota''), (''chandigarh'', ''chandigarh'', ''Chandigarh''),
    (''guwahati'', ''guwahati'', ''Guwahati''), (''thiruvananthapuram'', ''thiruvananthapuram'', ''Thiruvananthapuram''),
    (''bhubaneswar'', ''bhubaneswar'', ''Bhubaneswar''), (''puducherry'', ''puducherry'', ''Puducherry''),
    (''panaji'', ''panaji'', ''Panaji''), (''dispur'', ''dispur'', ''Dispur''),
    (''imphal'', ''imphal'', ''Imphal''), (''shillong'', ''shillong'', ''Shillong''),
    (''aizawl'', ''aizawl'', ''Aizawl''), (''kohima'', ''kohima'', ''Kohima''),
    (''itanagar'', ''itanagar'', ''Itanagar''), (''portblair'', ''port-blair'', ''Port Blair''),
    (''silvassa'', ''silvassa'', ''Silvassa''), (''shimla'', ''shimla'', ''Shimla''),
    (''manali'', ''manali'', ''Manali''), (''dharamshala'', ''dharamshala'', ''Dharamshala''),
    (''nainital'', ''nainital'', ''Nainital''), (''mussoorie'', ''mussoorie'', ''Mussoorie''),
    (''dehradun'', ''dehradun'', ''Dehradun''), (''rishikesh'', ''rishikesh'', ''Rishikesh''),
    (''haridwar'', ''haridwar'', ''Haridwar''), (''darjeeling'', ''darjeeling'', ''Darjeeling''),
    (''gangtok'', ''gangtok'', ''Gangtok''), (''srinagar'', ''srinagar'', ''Srinagar''),
    (''leh'', ''leh'', ''Leh''), (''ooty'', ''ooty'', ''Ooty''),
    (''kodaikanal'', ''kodaikanal'', ''Kodaikanal''), (''munnar'', ''munnar'', ''Munnar''),
    (''wayanad'', ''wayanad'', ''Wayanad''), (''mountabu'', ''mount-abu'', ''Mount Abu''),
    (''mahabaleshwar'', ''mahabaleshwar'', ''Mahabaleshwar''), (''lonavala'', ''lonavala'', ''Lonavala''),
    (''coorg'', ''coorg'', ''Coorg''), (''kochi'', ''kochi'', ''Kochi''),
    (''mysore'', ''mysore'', ''Mysore''), (''mangalore'', ''mangalore'', ''Mangalore''),
    (''hubli'', ''hubli'', ''Hubli''), (''belgaum'', ''belgaum'', ''Belgaum''),
    (''tirupati'', ''tirupati'', ''Tirupati''), (''guntur'', ''guntur'', ''Guntur''),
    (''nellore'', ''nellore'', ''Nellore''), (''tirunelveli'', ''tirunelveli'', ''Tirunelveli''),
    (''salem'', ''salem'', ''Salem''), (''tiruchirappalli'', ''tiruchirappalli'', ''Tiruchirappalli''),
    (''vellore'', ''vellore'', ''Vellore''), (''erode'', ''erode'', ''Erode''),
    (''thrissur'', ''thrissur'', ''Thrissur''), (''kollam'', ''kollam'', ''Kollam''),
    (''kozhikode'', ''kozhikode'', ''Kozhikode''), (''palakkad'', ''palakkad'', ''Palakkad''),
    (''alappuzha'', ''alappuzha'', ''Alappuzha''), (''noida'', ''noida'', ''Noida''),
    (''gurugram'', ''gurugram'', ''Gurugram''), (''rohtak'', ''rohtak'', ''Rohtak''),
    (''panipat'', ''panipat'', ''Panipat''), (''karnal'', ''karnal'', ''Karnal''),
    (''ambala'', ''ambala'', ''Ambala''), (''patiala'', ''patiala'', ''Patiala''),
    (''jalandhar'', ''jalandhar'', ''Jalandhar''), (''bathinda'', ''bathinda'', ''Bathinda''),
    (''mohali'', ''mohali'', ''Mohali''), (''jammu'', ''jammu'', ''Jammu''),
    (''udaipur'', ''udaipur'', ''Udaipur''), (''ajmer'', ''ajmer'', ''Ajmer''),
    (''bikaner'', ''bikaner'', ''Bikaner''), (''alwar'', ''alwar'', ''Alwar''),
    (''bharatpur'', ''bharatpur'', ''Bharatpur''), (''cuttack'', ''cuttack'', ''Cuttack''),
    (''puri'', ''puri'', ''Puri''), (''rourkela'', ''rourkela'', ''Rourkela''),
    (''jamshedpur'', ''jamshedpur'', ''Jamshedpur''), (''dhanbad'', ''dhanbad'', ''Dhanbad''),
    (''bokaro'', ''bokaro'', ''Bokaro''), (''durgapur'', ''durgapur'', ''Durgapur''),
    (''asansol'', ''asansol'', ''Asansol''), (''siliguri'', ''siliguri'', ''Siliguri''),
    (''gaya'', ''gaya'', ''Gaya''), (''bhagalpur'', ''bhagalpur'', ''Bhagalpur''),
    (''muzaffarpur'', ''muzaffarpur'', ''Muzaffarpur''), (''bilaspur'', ''bilaspur'', ''Bilaspur''),
    (''korba'', ''korba'', ''Korba''), (''bhilai'', ''bhilai'', ''Bhilai''),
    (''ujjain'', ''ujjain'', ''Ujjain''), (''sagar'', ''sagar'', ''Sagar''),
    (''dewas'', ''dewas'', ''Dewas''), (''cherrapunji'', ''cherrapunji'', ''Cherrapunji''),
    (''mawsynram'', ''mawsynram'', ''Mawsynram''), (''mahabalipuram'', ''mahabalipuram'', ''Mahabalipuram''),
    (''pondicherry'', ''pondicherry'', ''Pondicherry''), (''kannur'', ''kannur'', ''Kannur''),
    (''kottayam'', ''kottayam'', ''Kottayam''), (''idukki'', ''idukki'', ''Idukki''),
    (''udupi'', ''udupi'', ''Udupi''), (''karwar'', ''karwar'', ''Karwar''),
    (''ratnagiri'', ''ratnagiri'', ''Ratnagiri''), (''alibag'', ''alibag'', ''Alibag''),
    (''amboli'', ''amboli'', ''Amboli''), (''tezpur'', ''tezpur'', ''Tezpur''),
    (''dibrugarh'', ''dibrugarh'', ''Dibrugarh''), (''silchar'', ''silchar'', ''Silchar''),
    (''agartala'', ''agartala'', ''Agartala''), (''gulmarg'', ''gulmarg'', ''Gulmarg''),
    (''pahalgam'', ''pahalgam'', ''Pahalgam''), (''sonamarg'', ''sonamarg'', ''Sonamarg''),
    (''dalhousie'', ''dalhousie'', ''Dalhousie''), (''kullu'', ''kullu'', ''Kullu''),
    (''spiti'', ''spiti'', ''Spiti''), (''keylong'', ''keylong'', ''Keylong''),
    (''chamba'', ''chamba'', ''Chamba''), (''auli'', ''auli'', ''Auli''),
    (''kedarnath'', ''kedarnath'', ''Kedarnath''), (''badrinath'', ''badrinath'', ''Badrinath''),
    (''kargil'', ''kargil'', ''Kargil''), (''tawang'', ''tawang'', ''Tawang''),
    (''sandakphu'', ''sandakphu'', ''Sandakphu''), (''yumthangvalley'', ''yumthang'', ''Yumthang Valley'')
  ]"

section \<open>A concrete environment\<close>

text \<open>
  An environment on which the functions above can be run: the directory and the cache
  duration that \<open>WeatherDataLoader()\<close> defaults to, a Meteostat service that answers every
  query with one row for each day of the window, a toy pseudo-random generator whose state is a
  counter, a simplified calendar, the nanosecond range of pandas' \<open>Timestamp\<close> and a polynomial
  in place of the sine.
\<close>

definition window_frame :: "int \<Rightarrow> int \<Rightarrow> frame" where
  "window_frame start_date end_date =
     (let ds = date_range start_date end_date;
          c = Some (map (\<lambda>d. Some 20) ds)
      in \<lparr>dates = ds, tavg = c, tmin = c, tmax = c, prcp = c, wspd = c, pres = c\<rparr>)"

definition no_rows :: frame where
  "no_rows = \<lparr>dates = [], tavg = Some [], tmin = Some [], tmax = Some [], prcp = Some [],
              wspd = Some [], pres = Some []\<rparr>"

definition demo_env :: "nat env" where
  "demo_env =
     \<lparr>now = 1700000000000000,
      live = (\<lambda>la lo start_date end_date. window_frame start_date end_date),
      can_write = (\<lambda>p. True),
      meteostat_ok = True,
      tm_yday = (\<lambda>d. (d div DAY) mod 365 + 1),
      month_of = (\<lambda>d. ((d div DAY) mod 365) div 31 + 1),
      timestamp_ok = (\<lambda>t. - 9223372036854775 \<le> t \<and> t \<le> 9223372036854775),
      np_sin = (\<lambda>x. x - x ^ 3 / 6 + x ^ 5 / 120),
      np_pi = 3.141592653589793,
      rnd_seed = (\<lambda>n. n),
      rnd_normal = (\<lambda>m sd g. (m + sd * (real (g mod 5) - 2) / 2, Suc g)),
      rnd_uniform = (\<lambda>a b g. (a + (b - a) * real (g mod 4) / 4, Suc g)),
      rnd_exponential = (\<lambda>sc g. (sc * real (g mod 7) * 10, Suc g))\<rparr>"

text \<open>The same, with a service that has data for the coordinates of Delhi only.\<close>

definition delhi_only_env :: "nat env" where
  "delhi_only_env =
     demo_env\<lparr>live := (\<lambda>la lo start_date end_date.
                  if la = 28.7041 \<and> lo = 77.1025 then window_frame start_date end_date
                  else no_rows)\<rparr>"

definition demo_loader :: loader where
  "demo_loader = \<lparr>data_dir = ''data/raw'', cache_days = 1\<rparr>"

definition demo_world :: "nat world" where
  "demo_world = \<lparr>files = Map.empty, queries = [], rng_state = 0\<rparr>"

text \<open>The same with a service that has no data at all.\<close>

definition offline_env :: "nat env" where
  "offline_env = demo_env\<lparr>live := (\<lambda>la lo start_date end_date. no_rows)\<rparr>"

text \<open>The same a second later, and the same with a cache directory that cannot be written.\<close>

definition later_env :: "nat env" where
  "later_env = demo_env\<lparr>now := 1700000001000000\<rparr>"

definition readonly_env :: "nat env" where
  "readonly_env = demo_env\<lparr>can_write := (\<lambda>p. False)\<rparr>"

text \<open>A world whose cache holds a file for Delhi that was written 10000 seconds before.\<close>

definition cached_file :: cache_file where
  "cached_file = \<lparr>mtime = 1699990000000000, content = window_frame 1699900000000000 1699990000000000\<rparr>"

definition cached_world :: "nat world" where
  "cached_world = demo_world\<lparr>files := [''data/raw/delhi_30days.csv'' \<mapsto> cached_file]\<rparr>"

text \<open>
  A frame of five days with missing values, and a service that answers with it at the point
  (10, 20) and with no rows elsewhere.
\<close>

definition gappy_frame :: frame where
  "gappy_frame =
     \<lparr>dates = [1699654400000000, 1699740800000000, 1699827200000000, 1699913600000000,
               1700000000000000],
      tavg = Some [None, Some 20, None, None, Some 26],
      tmin = Some [Some 15, None, None, Some 18, None],
      tmax = Some [None, None, None, None, None],
      prcp = Some [Some 1, None, Some 3, None, None],
      wspd = Some [None, None, None, None, None],
      pres = Some [None, Some 1000, None, Some 1010, None]\<rparr>"

definition gappy_env :: "nat env" where
  "gappy_env =
     demo_env\<lparr>live := (\<lambda>la lo start_date end_date.
                  if la = 10 \<and> lo = 20 then gappy_frame else no_rows)\<rparr>"

text \<open>
  A world whose cache file for Delhi is exactly one day old, one whose file is a microsecond
  younger, and one with a fresh file for Mumbai; and the service with data for Delhi only
  together with a cache directory that cannot be written.
\<close>

definition day_old_file :: cache_file where
  "day_old_file = \<lparr>mtime = 1699913600000000, content = window_frame 1699800000000000 1699900000000000\<rparr>"

definition day_old_world :: "nat world" where
  "day_old_world = demo_world\<lparr>files := [''data/raw/delhi_30days.csv'' \<mapsto> day_old_file]\<rparr>"

definition almost_day_old_world :: "nat world" where
  "almost_day_old_world =
     demo_world\<lparr>files := [''data/raw/delhi_30days.csv'' \<mapsto> day_old_file\<lparr>mtime := 1699913600000001\<rparr>]\<rparr>"

definition mumbai_cached_world :: "nat world" where
  "mumbai_cached_world = demo_world\<lparr>files := [''data/raw/mumbai_30days.csv'' \<mapsto> cached_file]\<rparr>"

definition delhi_only_readonly_env :: "nat env" where
  "delhi_only_readonly_env = delhi_only_env\<lparr>can_write := (\<lambda>p. False)\<rparr>"

section \<open>The search for a station as a search over a list of points\<close>

text \<open>
  The loops of \<open>fetch_historical_data\<close> query one point after the other and stop at the first
  answer that is not empty. \<open>tried emp ps\<close> are the points of \<open>ps\<close> that such a search
  queries (\<open>emp p\<close> says that the answer at \<open>p\<close> is empty), and \<open>search\<close> is the search
  itself on the state of the loops: the frame last fetched, the source text and the world.
\<close>

abbreviation frame_at :: "'s env \<Rightarrow> int \<Rightarrow> int \<Rightarrow> real \<times> real \<Rightarrow> frame" where
  "frame_at E s e p \<equiv> live E (fst p) (snd p) s e"

abbreviation empty_at :: "'s env \<Rightarrow> int \<Rightarrow> int \<Rightarrow> real \<times> real \<Rightarrow> bool" where
  "empty_at E s e p \<equiv> df_empty (live E (fst p) (snd p) s e)"

abbreviation query_of :: "int \<Rightarrow> int \<Rightarrow> real \<times> real \<Rightarrow> real \<times> real \<times> int \<times> int" where
  "query_of s e p \<equiv> (fst p, snd p, s, e)"

definition tried :: "('a \<Rightarrow> bool) \<Rightarrow> 'a list \<Rightarrow> 'a list" where
  "tried emp ps = take (Suc (length (takeWhile emp ps))) ps"

definition search ::
  "'s env \<Rightarrow> int \<Rightarrow> int \<Rightarrow> (real \<times> real) list \<Rightarrow> frame \<times> source_tag \<times> 's world
   \<Rightarrow> frame \<times> source_tag \<times> 's world" where
  "search E s e ps st =
     (case st of (df, src, w) \<Rightarrow>
        (case find (\<lambda>p. \<not> empty_at E s e p) ps of
           None \<Rightarrow>
             (if ps = [] then df else frame_at E s e (last ps), src,
              w\<lparr>queries := queries w @ map (query_of s e) ps\<rparr>)
         | Some p \<Rightarrow>
             (frame_at E s e p, NearbyStation (fst p) (snd p),
              w\<lparr>queries := queries w @ map (query_of s e) (tried (empty_at E s e) ps)\<rparr>)))"

text \<open>The sixteen nearby points of a city, in the order of the two loops.\<close>

definition nearby_points :: "city \<Rightarrow> (real \<times> real) list" where
  "nearby_points city_info =
     concat (map (\<lambda>lat_offset. map (\<lambda>lon_offset. (lat city_info + lat_offset, lon city_info + lon_offset))
                                  [0.5, -0.5, 1.0, -1.0])
                 [0.5, -0.5, 1.0, -1.0])"

text \<open>The four nearby points of the stand-alone script, in the order of its loop.\<close>

definition diagonal_points :: "real \<Rightarrow> real \<Rightarrow> (real \<times> real) list" where
  "diagonal_points la lo = map (\<lambda>offset. (la + offset, lo + offset)) [0.5, 1.0, -0.5, -1.0]"

text \<open>The service has no rows at any point of a list.\<close>

definition all_empty :: "'s env \<Rightarrow> int \<Rightarrow> int \<Rightarrow> (real \<times> real) list \<Rightarrow> bool" where
  "all_empty E s e ps = list_all (empty_at E s e) ps"

section \<open>Properties of frames\<close>

text \<open>
  A column is complete for \<open>n\<close> rows when the frame has it, it has \<open>n\<close> values and none is
  missing; a frame is complete when it has \<open>n\<close> dates and its six columns are complete. A
  column is within \<open>lo\<close> and \<open>hi\<close> when the frame has it and every value is present and in
  the closed interval.
\<close>

definition complete_column :: "nat \<Rightarrow> column option \<Rightarrow> bool" where
  "complete_column n c =
     (case c of None \<Rightarrow> False | Some col \<Rightarrow> length col = n \<and> list_all (\<lambda>x. x \<noteq> None) col)"

definition complete_frame :: "nat \<Rightarrow> frame \<Rightarrow> bool" where
  "complete_frame n df =
     (length (dates df) = n \<and> complete_column n (tavg df) \<and> complete_column n (tmin df)
      \<and> complete_column n (tmax df) \<and> complete_column n (prcp df)
      \<and> complete_column n (wspd df) \<and> complete_column n (pres df))"

definition column_within :: "real \<Rightarrow> real \<Rightarrow> column option \<Rightarrow> bool" where
  "column_within lo hi c =
     (case c of
        None \<Rightarrow> False
      | Some col \<Rightarrow> list_all (\<lambda>x. case x of None \<Rightarrow> False | Some v \<Rightarrow> lo \<le> v \<and> v \<le> hi) col)"



section \<open>The registry: \<open>get_city_list\<close> and \<open>get_city_info\<close>\<close>

lemma lower_char_table:
  "lower_char CHR ''A'' = CHR ''a''"  "lower_char CHR ''B'' = CHR ''b''"
  "lower_char CHR ''C'' = CHR ''c''"  "lower_char CHR ''D'' = CHR ''d''"
  "lower_char CHR ''E'' = CHR ''e''"  "lower_char CHR ''F'' = CHR ''f''"
  "lower_char CHR ''G'' = CHR ''g''"  "lower_char CHR ''H'' = CHR ''h''"
  "lower_char CHR ''I'' = CHR ''i''"  "lower_char CHR ''J'' = CHR ''j''"
  "lower_char CHR ''K'' = CHR ''k''"  "lower_char CHR ''L'' = CHR ''l''"
  "lower_char CHR ''M'' = CHR ''m''"  "lower_char CHR ''N'' = CHR ''n''"
  "lower_char CHR ''O'' = CHR ''o''"  "lower_char CHR ''P'' = CHR ''p''"
  "lower_char CHR ''Q'' = CHR ''q''"  "lower_char CHR ''R'' = CHR ''r''"
  "lower_char CHR ''S'' = CHR ''s''"  "lower_char CHR ''T'' = CHR ''t''"
  "lower_char CHR ''U'' = CHR ''u''"  "lower_char CHR ''V'' = CHR ''v''"
  "lower_char CHR ''W'' = CHR ''w''"  "lower_char CHR ''X'' = CHR ''x''"
  "lower_char CHR ''Y'' = CHR ''y''"  "lower_char CHR ''Z'' = CHR ''z''"
  "lower_char CHR ''a'' = CHR ''a''"  "lower_char CHR ''b'' = CHR ''b''"
  "lower_char CHR ''c'' = CHR ''c''"  "lower_char CHR ''d'' = CHR ''d''"
  "lower_char CHR ''e'' = CHR ''e''"  "lower_char CHR ''f'' = CHR ''f''"
  "lower_char CHR ''g'' = CHR ''g''"  "lower_char CHR ''h'' = CHR ''h''"
  "lower_char CHR ''i'' = CHR ''i''"  "lower_char CHR ''j'' = CHR ''j''"
  "lower_char CHR ''k'' = CHR ''k''"  "lower_char CHR ''l'' = CHR ''l''"
  "lower_char CHR ''m'' = CHR ''m''"  "lower_char CHR ''n'' = CHR ''n''"
  "lower_char CHR ''o'' = CHR ''o''"  "lower_char CHR ''p'' = CHR ''p''"
  "lower_char CHR ''q'' = CHR ''q''"  "lower_char CHR ''r'' = CHR ''r''"
  "lower_char CHR ''s'' = CHR ''s''"  "lower_char CHR ''t'' = CHR ''t''"
  "lower_char CHR ''u'' = CHR ''u''"  "lower_char CHR ''v'' = CHR ''v''"
  "lower_char CHR ''w'' = CHR ''w''"  "lower_char CHR ''x'' = CHR ''x''"
  "lower_char CHR ''y'' = CHR ''y''"  "lower_char CHR ''z'' = CHR ''z''"
  "lower_char CHR '' '' = CHR '' ''"  "lower_char CHR ''-'' = CHR ''-''"
  "lower_char CHR ''_'' = CHR ''_''"
  by code_simp+

lemma registry_table_eq:
  "map (\<lambda>(key, info). (display_key info, key, name info)) INDIAN_CITIES = registry_table"
  unfolding INDIAN_CITIES_def registry_table_def
  by (simp add: lower_def remove_char_def lower_char_table)

lemma registry_display_keys:
  "map (\<lambda>(key, info). display_key info) INDIAN_CITIES = map fst registry_table"
proof -
  have "map fst (map (\<lambda>(key, info). (display_key info, key, name info)) INDIAN_CITIES)
        = map (\<lambda>(key, info). display_key info) INDIAN_CITIES"
    by (simp add: case_prod_beta comp_def)
  then show ?thesis by (simp only: registry_table_eq)
qed

lemma registry_display_keys_distinct: "distinct (map fst registry_table)"
  unfolding registry_table_def by simp

lemma find_city_mem: "find_city ck reg = Some info \<Longrightarrow> \<exists>key. (key, info) \<in> set reg"
  by (induction reg) (auto split: if_splits)

lemma find_city_None:
  "find_city ck reg = None \<longleftrightarrow>
     ck \<notin> set (map (\<lambda>(key, info). display_key info) reg) \<and> ck \<notin> set (map fst reg)"
  by (induction ck reg rule: find_city.induct) auto

lemma find_city_first:
  assumes "distinct (map (\<lambda>(key, info). display_key info) reg)"
    and "\<forall>(key, info) \<in> set reg. key = display_key info \<or> key \<noteq> ck"
    and "(k, i) \<in> set reg"
    and "display_key i = ck"
  shows "find_city ck reg = Some i"
  using assms
proof (induction reg)
  case Nil
  then show ?case by simp
next
  case (Cons e reg)
  obtain key info where e: "e = (key, info)" by (cases e)
  show ?case
  proof (cases "display_key info = ck")
    case True
    have "(k, i) = (key, info)"
    proof (rule ccontr)
      assume "(k, i) \<noteq> (key, info)"
      with Cons.prems(3) e have "(k, i) \<in> set reg" by auto
      then have "display_key i \<in> set (map (\<lambda>(key, info). display_key info) reg)" by force
      with Cons.prems(1,4) True e show False by simp
    qed
    with True e show ?thesis by simp
  next
    case False
    with Cons.prems(2) e have nk: "key \<noteq> ck" by auto
    from False Cons.prems(3,4) e have "(k, i) \<in> set reg" by auto
    with Cons.IH Cons.prems nk False e show ?thesis by simp
  qed
qed

lemma registry_keys:
  "\<forall>(n, k, nm) \<in> set registry_table. k = n \<or> k \<in> {''port-blair'', ''mount-abu'', ''yumthang''}"
  unfolding registry_table_def by simp

lemma registry_special_keys:
  "''port-blair'' \<notin> set (map fst registry_table)"
  "''mount-abu'' \<notin> set (map fst registry_table)"
  "''yumthang'' \<notin> set (map fst registry_table)"
  unfolding registry_table_def by simp_all

lemma registry_no_hyphen: "\<forall>(n, k, nm) \<in> set registry_table. CHR ''-'' \<notin> set n"
  unfolding registry_table_def by simp

lemma registry_table_mem:
  assumes "(key, info) \<in> set INDIAN_CITIES"
  shows "(display_key info, key, name info) \<in> set registry_table"
proof -
  from assms have "(display_key info, key, name info)
      \<in> set (map (\<lambda>(key, info). (display_key info, key, name info)) INDIAN_CITIES)"
    by force
  then show ?thesis by (simp only: registry_table_eq)
qed

lemma registry_names:
  "map (\<lambda>(key, info). name info) INDIAN_CITIES = map (\<lambda>(n, k, nm). nm) registry_table"
proof -
  have "map (\<lambda>(n, k, nm). nm) (map (\<lambda>(key, info). (display_key info, key, name info)) INDIAN_CITIES)
        = map (\<lambda>(key, info). name info) INDIAN_CITIES"
    by (simp add: case_prod_beta comp_def)
  then show ?thesis by (simp only: registry_table_eq)
qed

lemma get_city_list_set: "set get_city_list = set (map (\<lambda>(n, k, nm). nm) registry_table)"
  by (simp only: get_city_list_def set_sort registry_names)

lemma remove_char_absent: "c \<notin> set s \<Longrightarrow> remove_char c s = s"
  by (auto simp: remove_char_def filter_id_conv)

lemma find_city_registered:
  assumes "(key, info) \<in> set INDIAN_CITIES"
  shows "find_city (display_key info) INDIAN_CITIES = Some info"
proof -
  have d: "distinct (map (\<lambda>(key, info). display_key info) INDIAN_CITIES)"
    by (simp only: registry_display_keys registry_display_keys_distinct)
  have ck: "display_key info \<in> set (map fst registry_table)"
    using registry_table_mem [OF assms] by force
  have k0: "key' \<noteq> display_key info"
    if m: "(key', info') \<in> set INDIAN_CITIES" and ne: "key' \<noteq> display_key info'"
    for key' info'
  proof -
    from registry_table_mem [OF m] registry_keys ne
    have "key' \<in> {''port-blair'', ''mount-abu'', ''yumthang''}" by blast
    with registry_special_keys have "key' \<notin> set (map fst registry_table)" by blast
    with ck show ?thesis by blast
  qed
  have k: "\<forall>(key', info') \<in> set INDIAN_CITIES. key' = display_key info' \<or> key' \<noteq> display_key info"
    using k0 by blast
  from d k assms show ?thesis by (rule find_city_first) simp
qed

lemma get_city_info_display_name:
  assumes "(key, info) \<in> set INDIAN_CITIES"
  shows "get_city_info (name info) = Inr info"
proof -
  from registry_table_mem [OF assms] registry_no_hyphen
  have "CHR ''-'' \<notin> set (display_key info)" by blast
  then have "remove_char CHR ''-'' (display_key info) = display_key info"
    by (rule remove_char_absent)
  then show ?thesis
    by (simp add: get_city_info_def find_city_registered [OF assms])
qed

lemma get_city_info_key_only:
  assumes "remove_char CHR ''-'' (remove_char CHR '' '' (lower q))
         = remove_char CHR ''-'' (remove_char CHR '' '' (lower q'))"
  shows "(get_city_info q = Inr info) = (get_city_info q' = Inr info)"
  using assms by (simp add: get_city_info_def split: option.splits)

text \<open>
  C10. Every display name that \<open>get_city_list\<close> returns is found by \<open>get_city_info\<close>, which
  returns the registry record with that display name; and the outcome of a lookup does not
  change when the query changes only in letter case, or gains a space or a hyphen anywhere.
\<close>

theorem registry_round_trip:
  "(\<forall>n \<in> set get_city_list.
      \<exists>key info. (key, info) \<in> set INDIAN_CITIES \<and> get_city_info n = Inr info \<and> name info = n)
   \<and> (\<forall>q q' info. lower q = lower q' \<longrightarrow>
         (get_city_info q = Inr info) = (get_city_info q' = Inr info))
   \<and> (\<forall>a b info. (get_city_info (a @ '' '' @ b) = Inr info) = (get_city_info (a @ b) = Inr info))
   \<and> (\<forall>a b info. (get_city_info (a @ ''-'' @ b) = Inr info) = (get_city_info (a @ b) = Inr info))"
proof (intro conjI allI ballI impI)
  fix n assume "n \<in> set get_city_list"
  then obtain key info where m: "(key, info) \<in> set INDIAN_CITIES" and n: "n = name info"
    by (auto simp: get_city_list_def)
  from get_city_info_display_name [OF m] m n
  show "\<exists>key info. (key, info) \<in> set INDIAN_CITIES \<and> get_city_info n = Inr info \<and> name info = n"
    by blast
next
  fix q q' :: string and info assume "lower q = lower q'"
  then show "(get_city_info q = Inr info) = (get_city_info q' = Inr info)"
    by (intro get_city_info_key_only) simp
next
  fix a b :: string and info
  show "(get_city_info (a @ '' '' @ b) = Inr info) = (get_city_info (a @ b) = Inr info)"
    by (intro get_city_info_key_only) (simp add: lower_def remove_char_def lower_char_table)
next
  fix a b :: string and info
  show "(get_city_info (a @ ''-'' @ b) = Inr info) = (get_city_info (a @ b) = Inr info)"
    by (intro get_city_info_key_only) (simp add: lower_def remove_char_def lower_char_table)
qed

theorem registry_round_trip_witness:
  "''Port Blair'' \<in> set get_city_list
   \<and> (\<exists>key info. (key, info) \<in> set INDIAN_CITIES \<and> get_city_info ''Port Blair'' = Inr info
         \<and> name info = ''Port Blair'')
   \<and> lower ''PORT BLAIR'' = lower ''port blair''
   \<and> (\<forall>info. (get_city_info ''PORT BLAIR'' = Inr info) = (get_city_info ''port blair'' = Inr info))"
proof -
  have m: "''Port Blair'' \<in> set get_city_list"
    unfolding get_city_list_set registry_table_def by simp
  have l: "lower ''PORT BLAIR'' = lower ''port blair''"
    by (simp add: lower_def lower_char_table)
  from registry_round_trip m l show ?thesis by blast
qed

section \<open>The live tiers of \<open>fetch_historical_data\<close>\<close>

lemma tried_Nil: "tried emp [] = []"
  by (simp add: tried_def)

lemma tried_Cons: "tried emp (p # ps) = p # (if emp p then tried emp ps else [])"
  by (simp add: tried_def)

lemma tried_all: "list_all emp ps \<Longrightarrow> tried emp ps = ps"
  by (induction ps) (simp_all add: tried_Nil tried_Cons)

lemma tried_append:
  "tried emp (ps @ qs) = (if list_all emp ps then ps @ tried emp qs else tried emp ps)"
  by (induction ps) (simp_all add: tried_Cons)

lemma find_not_None: "(find (\<lambda>p. \<not> emp p) ps = None) = list_all emp ps"
  by (induction ps) simp_all

lemma search_Nil: "search E s e [] st = st"
  by (cases st) (simp add: search_def)

lemma search_Cons:
  "search E s e (p # ps) (df, src, w) =
     (if empty_at E s e p
      then search E s e ps (frame_at E s e p, src, w\<lparr>queries := queries w @ [query_of s e p]\<rparr>)
      else (frame_at E s e p, NearbyStation (fst p) (snd p),
            w\<lparr>queries := queries w @ [query_of s e p]\<rparr>))"
  by (cases "find (\<lambda>p. \<not> empty_at E s e p) ps") (simp_all add: search_def tried_Cons)

lemma search_empty:
  "df_empty (fst (search E s e ps (df, src, w))) = (list_all (empty_at E s e) ps \<and> (ps = [] \<longrightarrow> df_empty df))"
proof (induction ps arbitrary: df src w)
  case Nil
  then show ?case by (simp add: search_Nil)
next
  case (Cons p ps)
  then show ?case by (cases ps) (auto simp: search_Cons search_Nil)
qed

lemma search_append:
  assumes "ps \<noteq> [] \<or> df_empty (fst st)"
  shows "search E s e (ps @ qs) st =
     (if df_empty (fst (search E s e ps st)) then search E s e qs (search E s e ps st)
      else search E s e ps st)"
  using assms
proof (induction ps arbitrary: st)
  case Nil
  then show ?case by (simp add: search_Nil)
next
  case (Cons p ps)
  obtain df src w where st: "st = (df, src, w)" by (cases st)
  show ?case
  proof (cases "empty_at E s e p")
    case True
    with Cons.IH [of "(frame_at E s e p, src, w\<lparr>queries := queries w @ [query_of s e p]\<rparr>)"] st
    show ?thesis by (simp add: search_Cons)
  next
    case False
    with st show ?thesis by (simp add: search_Cons)
  qed
qed

lemma try_lon_search:
  "try_lon E ci s e a bs st = search E s e (map (\<lambda>b. (lat ci + a, lon ci + b)) bs) st"
proof (induction bs arbitrary: st)
  case Nil
  then show ?case by (simp add: search_Nil)
next
  case (Cons b bs)
  obtain df src w where st: "st = (df, src, w)" by (cases st)
  with Cons show ?case by (simp add: search_Cons query_def)
qed

lemma try_lat_search:
  "try_lat E ci s e as st =
   search E s e (concat (map (\<lambda>a. map (\<lambda>b. (lat ci + a, lon ci + b)) [0.5, -0.5, 1.0, -1.0]) as)) st"
proof (induction as arbitrary: st)
  case Nil
  then show ?case by (simp add: search_Nil)
next
  case (Cons a as)
  define row where "row = map (\<lambda>b. (lat ci + a, lon ci + b)) [0.5, -0.5, 1.0, -1.0]"
  define rest where
    "rest = concat (map (\<lambda>a. map (\<lambda>b. (lat ci + a, lon ci + b)) [0.5, -0.5, 1.0, -1.0]) as)"
  have ne: "row \<noteq> []" by (simp add: row_def)
  have lon: "try_lon E ci s e a [0.5, -0.5, 1.0, -1.0] st = search E s e row st"
    by (simp only: try_lon_search row_def)
  have ih: "try_lat E ci s e as st' = search E s e rest st'" for st'
    by (simp only: Cons.IH rest_def)
  obtain df src w where r: "search E s e row st = (df, src, w)"
    by (cases "search E s e row st")
  have "try_lat E ci s e (a # as) st =
          (case search E s e row st of
             (df', src', w') \<Rightarrow>
               if \<not> df_empty df' then (df', src', w') else search E s e rest (df', src', w'))"
    by (simp only: try_lat.simps lon ih)
  also have "\<dots> = (if df_empty df then search E s e rest (df, src, w) else (df, src, w))"
    by (simp only: r prod.case) simp
  also have "\<dots> = search E s e (row @ rest) st"
    using search_append [of row st E s e rest] ne by (simp only: r fst_conv) simp
  also have "row @ rest =
      concat (map (\<lambda>a. map (\<lambda>b. (lat ci + a, lon ci + b)) [0.5, -0.5, 1.0, -1.0]) (a # as))"
    by (simp only: row_def rest_def list.map concat.simps)
  finally show ?case .
qed

lemma get_city_info_Delhi:
  "get_city_info ''Delhi'' = Inr \<lparr>name = ''Delhi'', lat = 28.7041, lon = 77.1025, state = ''Delhi''\<rparr>"
  by (simp add: get_city_info_def INDIAN_CITIES_def lower_def remove_char_def lower_char_table)

lemma search_all_empty:
  "list_all (empty_at E s e) ps \<Longrightarrow>
   search E s e ps (df, src, w) =
     (if ps = [] then df else frame_at E s e (last ps), src,
      w\<lparr>queries := queries w @ map (query_of s e) ps\<rparr>)"
proof -
  assume "list_all (empty_at E s e) ps"
  then have "find (\<lambda>p. \<not> empty_at E s e p) ps = None" by (simp add: find_not_None)
  then show ?thesis by (simp add: search_def)
qed

lemma search_hit:
  "find (\<lambda>p. \<not> empty_at E s e p) ps = Some p \<Longrightarrow>
   search E s e ps (df, src, w) =
     (frame_at E s e p, NearbyStation (fst p) (snd p),
      w\<lparr>queries := queries w @ map (query_of s e) (tried (empty_at E s e) ps)\<rparr>)"
  by (simp add: search_def)

lemma nearby_points_nonempty: "nearby_points ci \<noteq> []"
  by (simp add: nearby_points_def)

lemma try_lat_nearby:
  "try_lat E ci s e [0.5, -0.5, 1.0, -1.0] st = search E s e (nearby_points ci) st"
  by (simp only: try_lat_search nearby_points_def)

lemma acquire_exact:
  assumes "\<not> empty_at E s e (lat ci, lon ci)"
  shows "acquire E city_name ci s e w =
     (Inr (frame_at E s e (lat ci, lon ci), Meteostat city_name (lat ci) (lon ci)),
      w\<lparr>queries := queries w @ [query_of s e (lat ci, lon ci)]\<rparr>)"
  using assms unfolding acquire_def query_def try_lat_nearby by simp

lemma acquire_nearby:
  assumes "empty_at E s e (lat ci, lon ci)"
    and "find (\<lambda>p. \<not> empty_at E s e p) (nearby_points ci) = Some p"
  shows "acquire E city_name ci s e w =
     (Inr (frame_at E s e p, NearbyStation (fst p) (snd p)),
      w\<lparr>queries := queries w @ query_of s e (lat ci, lon ci)
                       # map (query_of s e) (tried (empty_at E s e) (nearby_points ci))\<rparr>)"
proof -
  from assms(2) have "\<not> empty_at E s e p" by (auto simp: find_Some_iff)
  with assms show ?thesis
    unfolding acquire_def query_def try_lat_nearby
    by (simp add: search_hit)
qed

lemma search_all_empty_frame:
  assumes "list_all (empty_at E s e) ps" and "ps \<noteq> []"
  shows "df_empty (if ps = [] then df else frame_at E s e (last ps))"
proof -
  from assms have "last ps \<in> set ps" by simp
  with assms show ?thesis by (auto simp: list_all_iff)
qed

lemma acquire_delhi:
  assumes "empty_at E s e (lat ci, lon ci)"
    and "list_all (empty_at E s e) (nearby_points ci)"
    and "\<not> empty_at E s e (28.7041, 77.1025)"
  shows "acquire E city_name ci s e w =
     (Inr (frame_at E s e (28.7041, 77.1025), DelhiFallback),
      w\<lparr>queries := queries w @ query_of s e (lat ci, lon ci)
                       # map (query_of s e) (nearby_points ci) @ [query_of s e (28.7041, 77.1025)]\<rparr>)"
  using assms search_all_empty_frame [OF assms(2) nearby_points_nonempty]
  unfolding acquire_def query_def try_lat_nearby
  by (simp add: search_all_empty get_city_info_Delhi nearby_points_nonempty)

lemma acquire_synthetic:
  assumes "empty_at E s e (lat ci, lon ci)"
    and "list_all (empty_at E s e) (nearby_points ci)"
    and "empty_at E s e (28.7041, 77.1025)"
  shows "acquire E city_name ci s e w =
     (case generate_synthetic_data E city_name s e (rng_state w) of
        Inl err \<Rightarrow>
          (Inl err,
           w\<lparr>queries := queries w @ query_of s e (lat ci, lon ci)
                       # map (query_of s e) (nearby_points ci) @ [query_of s e (28.7041, 77.1025)]\<rparr>)
      | Inr (dfs, g) \<Rightarrow>
          (Inr (dfs, Synthetic city_name),
           w\<lparr>queries := queries w @ query_of s e (lat ci, lon ci)
                       # map (query_of s e) (nearby_points ci) @ [query_of s e (28.7041, 77.1025)],
             rng_state := g\<rparr>))"
  using assms search_all_empty_frame [OF assms(2) nearby_points_nonempty]
  unfolding acquire_def query_def try_lat_nearby
  by (simp add: search_all_empty get_city_info_Delhi nearby_points_nonempty
           split: sum.splits prod.splits)

section \<open>The file cache and the order of the steps in \<open>fetch_historical_data\<close>\<close>

lemma tier_cases:
  "\<not> empty_at E s e (lat ci, lon ci)
   \<or> (empty_at E s e (lat ci, lon ci)
       \<and> (\<exists>p. find (\<lambda>p. \<not> empty_at E s e p) (nearby_points ci) = Some p))
   \<or> (empty_at E s e (lat ci, lon ci) \<and> list_all (empty_at E s e) (nearby_points ci)
       \<and> \<not> empty_at E s e (28.7041, 77.1025))
   \<or> (empty_at E s e (lat ci, lon ci) \<and> list_all (empty_at E s e) (nearby_points ci)
       \<and> empty_at E s e (28.7041, 77.1025))"
  using find_not_None [of "empty_at E s e" "nearby_points ci"]
  by (cases "find (\<lambda>p. \<not> empty_at E s e p) (nearby_points ci)") auto

lemma acquire_tag:
  assumes "acquire E city_name ci s e w = (Inr (df, src), w1)"
  shows "src \<noteq> FileCache x"
proof -
  consider (exact) "\<not> empty_at E s e (lat ci, lon ci)"
    | (nearby) p where "empty_at E s e (lat ci, lon ci)"
        "find (\<lambda>p. \<not> empty_at E s e p) (nearby_points ci) = Some p"
    | (delhi) "empty_at E s e (lat ci, lon ci)" "list_all (empty_at E s e) (nearby_points ci)"
        "\<not> empty_at E s e (28.7041, 77.1025)"
    | (synthetic) "empty_at E s e (lat ci, lon ci)" "list_all (empty_at E s e) (nearby_points ci)"
        "empty_at E s e (28.7041, 77.1025)"
    using tier_cases [where E = E and s = s and e = e and ci = ci] by blast
  then show ?thesis
  proof cases
    case exact
    from assms show ?thesis by (auto simp: acquire_exact [OF exact])
  next
    case nearby
    from assms show ?thesis by (auto simp: acquire_nearby [OF nearby])
  next
    case delhi
    from assms show ?thesis by (auto simp: acquire_delhi [OF delhi])
  next
    case synthetic
    from assms show ?thesis
      by (auto simp: acquire_synthetic [OF synthetic] split: sum.splits prod.splits)
  qed
qed

lemma acquire_files:
  "acquire E city_name ci s e (w\<lparr>files := F\<rparr>) =
   (case acquire E city_name ci s e w of (r, w') \<Rightarrow> (r, w'\<lparr>files := F\<rparr>))"
proof -
  consider (exact) "\<not> empty_at E s e (lat ci, lon ci)"
    | (nearby) p where "empty_at E s e (lat ci, lon ci)"
        "find (\<lambda>p. \<not> empty_at E s e p) (nearby_points ci) = Some p"
    | (delhi) "empty_at E s e (lat ci, lon ci)" "list_all (empty_at E s e) (nearby_points ci)"
        "\<not> empty_at E s e (28.7041, 77.1025)"
    | (synthetic) "empty_at E s e (lat ci, lon ci)" "list_all (empty_at E s e) (nearby_points ci)"
        "empty_at E s e (28.7041, 77.1025)"
    using tier_cases [where E = E and s = s and e = e and ci = ci] by blast
  then show ?thesis
  proof cases
    case exact
    show ?thesis by (simp add: acquire_exact [OF exact])
  next
    case nearby
    show ?thesis by (simp add: acquire_nearby [OF nearby])
  next
    case delhi
    show ?thesis by (simp add: acquire_delhi [OF delhi])
  next
    case synthetic
    show ?thesis
      by (simp add: acquire_synthetic [OF synthetic] split: sum.splits prod.splits)
  qed
qed

lemma fetch_miss:
  assumes "cache_lookup E L city_name w = None"
  shows "fetch_historical_data E L city_name days w =
     (case get_city_info city_name of
        Inl e \<Rightarrow> (Inl e, w)
      | Inr city_info \<Rightarrow>
         (case minus_days (now E) days of
            Inl e \<Rightarrow> (Inl e, w)
          | Inr start_date \<Rightarrow>
             (case acquire E city_name city_info start_date (now E) w of
                (Inl e, w1) \<Rightarrow> (Inl e, w1)
              | (Inr (df, src), w1) \<Rightarrow>
                  if can_write E (cache_path L city_name)
                  then (Inr (df, src),
                        w1\<lparr>files := (files w1)(cache_path L city_name \<mapsto>
                                       \<lparr>mtime = now E, content = df\<rparr>)\<rparr>)
                  else (Inl (OSError (cache_path L city_name)), w1))))"
  using assms
  by (cases "get_city_info city_name") (simp_all add: fetch_historical_data_def Let_def)

lemma fetch_hit:
  assumes "cache_lookup E L city_name w = Some df"
  shows "fetch_historical_data E L city_name days w = (Inr (df, FileCache city_name), w)"
  using assms by (simp add: fetch_historical_data_def)

lemma fetch_not_cache_tag:
  assumes "cache_lookup E L city_name w = None"
  shows "fetch_historical_data E L city_name days w \<noteq> (Inr (df, FileCache x), w')"
proof
  assume a: "fetch_historical_data E L city_name days w = (Inr (df, FileCache x), w')"
  show False
  proof (cases "get_city_info city_name")
    case (Inl e)
    with a assms show False by (simp add: fetch_miss)
  next
    case (Inr ci)
    show False
    proof (cases "minus_days (now E) days")
      case (Inl e)
      with a assms Inr show False by (simp add: fetch_miss)
    next
      case s: (Inr s)
      obtain r w1 where acq: "acquire E city_name ci s (now E) w = (r, w1)"
        by (cases "acquire E city_name ci s (now E) w")
      show False
      proof (cases r)
        case (Inl e)
        with a assms Inr s acq show False by (simp add: fetch_miss)
      next
        case r: (Inr p)
        obtain df1 src1 where p: "p = (df1, src1)" by (cases p)
        from acq r p acquire_tag have "src1 \<noteq> FileCache x" by blast
        with a assms Inr s acq r p show False by (simp add: fetch_miss split: if_splits)
      qed
    qed
  qed
qed

lemma fetch_stale_as_absent:
  assumes "cache_lookup E L city_name w = None"
  shows "fst (fetch_historical_data E L city_name days w)
       = fst (fetch_historical_data E L city_name days (w\<lparr>files := (files w)(cache_path L city_name := None)\<rparr>))"
proof -
  let ?w = "w\<lparr>files := (files w)(cache_path L city_name := None)\<rparr>"
  have m: "cache_lookup E L city_name ?w = None" by (simp add: cache_lookup_def)
  show ?thesis
    by (simp add: fetch_miss [OF assms] fetch_miss [OF m] acquire_files
             split: sum.splits prod.splits)
qed

lemma tried_singleton: "tried emp [p] = [p]"
  by (simp add: tried_Cons tried_Nil)

lemma tried_hit:
  "find (\<lambda>p. \<not> emp p) ps = Some p \<Longrightarrow> tried emp (ps @ qs) = tried emp ps"
  using find_not_None [of emp ps] by (simp add: tried_append)

lemma find_append_hit:
  "find P ps = Some p \<Longrightarrow> find P (ps @ qs) = Some p"
  by (induction ps) (auto split: if_splits)

lemma find_append_miss:
  "find P ps = None \<Longrightarrow> find P (ps @ qs) = find P qs"
  by (induction ps) (auto split: if_splits)

lemma acquire_queries:
  "queries (snd (acquire E city_name ci s e w)) =
   queries w @ map (query_of s e)
     (tried (empty_at E s e) ((lat ci, lon ci) # nearby_points ci @ [(28.7041, 77.1025)]))"
proof -
  consider (exact) "\<not> empty_at E s e (lat ci, lon ci)"
    | (nearby) p where "empty_at E s e (lat ci, lon ci)"
        "find (\<lambda>p. \<not> empty_at E s e p) (nearby_points ci) = Some p"
    | (delhi) "empty_at E s e (lat ci, lon ci)" "list_all (empty_at E s e) (nearby_points ci)"
        "\<not> empty_at E s e (28.7041, 77.1025)"
    | (synthetic) "empty_at E s e (lat ci, lon ci)" "list_all (empty_at E s e) (nearby_points ci)"
        "empty_at E s e (28.7041, 77.1025)"
    using tier_cases [where E = E and s = s and e = e and ci = ci] by blast
  then show ?thesis
  proof cases
    case exact
    then show ?thesis by (simp add: acquire_exact tried_Cons)
  next
    case nearby
    then show ?thesis by (simp add: acquire_nearby tried_Cons tried_hit)
  next
    case delhi
    then show ?thesis by (simp add: acquire_delhi tried_Cons tried_append tried_singleton)
  next
    case synthetic
    then show ?thesis
      by (simp add: acquire_synthetic tried_Cons tried_Nil tried_append tried_singleton
               split: sum.splits prod.splits)
  qed
qed

lemma acquire_first_hit:
  assumes "find (\<lambda>p. \<not> empty_at E s e p)
             ((lat ci, lon ci) # nearby_points ci @ [(28.7041, 77.1025)]) = Some p"
  shows "\<exists>src. fst (acquire E city_name ci s e w) = Inr (frame_at E s e p, src)"
proof -
  consider (exact) "\<not> empty_at E s e (lat ci, lon ci)"
    | (nearby) q where "empty_at E s e (lat ci, lon ci)"
        "find (\<lambda>p. \<not> empty_at E s e p) (nearby_points ci) = Some q"
    | (delhi) "empty_at E s e (lat ci, lon ci)" "list_all (empty_at E s e) (nearby_points ci)"
        "\<not> empty_at E s e (28.7041, 77.1025)"
    | (synthetic) "empty_at E s e (lat ci, lon ci)" "list_all (empty_at E s e) (nearby_points ci)"
        "empty_at E s e (28.7041, 77.1025)"
    using tier_cases [where E = E and s = s and e = e and ci = ci] by blast
  then show ?thesis
  proof cases
    case exact
    with assms have "p = (lat ci, lon ci)" by simp
    with exact show ?thesis by (simp add: acquire_exact)
  next
    case nearby
    with assms have "p = q" by (simp add: find_append_hit)
    with nearby show ?thesis by (simp add: acquire_nearby)
  next
    case delhi
    from delhi(2) have "find (\<lambda>p. \<not> empty_at E s e p) (nearby_points ci) = None"
      by (simp add: find_not_None)
    with assms delhi have "p = (28.7041, 77.1025)" by (simp add: find_append_miss)
    with delhi show ?thesis by (simp add: acquire_delhi)
  next
    case synthetic
    from synthetic(2) have "find (\<lambda>p. \<not> empty_at E s e p) (nearby_points ci) = None"
      by (simp add: find_not_None)
    with assms synthetic show ?thesis by (simp add: find_append_miss)
  qed
qed

lemma fetch_miss_queries:
  assumes "cache_lookup E L city_name w = None" and "get_city_info city_name = Inr ci"
    and "minus_days (now E) days = Inr s"
  shows "queries (snd (fetch_historical_data E L city_name days w))
       = queries (snd (acquire E city_name ci s (now E) w))"
  using assms by (simp add: fetch_miss split: sum.splits prod.splits)

lemma fetch_miss_result:
  assumes "cache_lookup E L city_name w = None" and "get_city_info city_name = Inr ci"
    and "minus_days (now E) days = Inr s"
    and "can_write E (cache_path L city_name)"
  shows "fst (fetch_historical_data E L city_name days w)
       = fst (acquire E city_name ci s (now E) w)"
  using assms by (simp add: fetch_miss split: sum.splits prod.splits)

section \<open>Runs of \<open>fetch_historical_data\<close> on the concrete environment\<close>

lemma date_range_nonempty: "s \<le> e \<Longrightarrow> date_range s e \<noteq> []"
proof -
  assume "s \<le> e"
  then have "0 \<le> (e - s) div DAY" by (simp add: DAY_def pos_imp_zdiv_nonneg_iff)
  then have "0 < nat ((e - s) div DAY + 1)" by simp
  with \<open>s \<le> e\<close> show ?thesis by (simp add: date_range_def)
qed

lemma window_frame_nonempty: "s \<le> e \<Longrightarrow> \<not> df_empty (window_frame s e)"
  by (simp add: df_empty_def window_frame_def Let_def date_range_nonempty)

lemma length_date_range: "s \<le> e \<Longrightarrow> length (date_range s e) = nat ((e - s) div DAY + 1)"
  by (simp add: date_range_def)

lemma cache_path_demo:
  "cache_path demo_loader ''Delhi'' = ''data/raw/delhi_30days.csv''"
  "cache_path demo_loader ''Mumbai'' = ''data/raw/mumbai_30days.csv''"
  "cache_path demo_loader ''Port Blair'' = ''data/raw/port_blair_30days.csv''"
  "cache_path demo_loader ''port_blair'' = ''data/raw/port_blair_30days.csv''"
  by (simp_all add: cache_path_def path_join_def demo_loader_def lower_def replace_char_def
                    lower_char_table)

lemma registry_keys_eq:
  "map fst INDIAN_CITIES = map (\<lambda>(n, k, nm). k) registry_table"
proof -
  have "map (\<lambda>(n, k, nm). k) (map (\<lambda>(key, info). (display_key info, key, name info)) INDIAN_CITIES)
        = map fst INDIAN_CITIES"
    by (simp add: case_prod_beta comp_def)
  then show ?thesis by (simp only: registry_table_eq)
qed

lemma get_city_info_port_blair_underscore:
  "get_city_info ''port_blair'' = Inl (CityNotFound ''port_blair'')"
proof -
  have k: "remove_char CHR ''-'' (remove_char CHR '' '' (lower ''port_blair'')) = ''port_blair''"
    by (simp add: lower_def remove_char_def lower_char_table)
  have "''port_blair'' \<notin> set (map fst registry_table)"
    unfolding registry_table_def by simp
  moreover have "''port_blair'' \<notin> set (map (\<lambda>(n, k, nm). k) registry_table)"
    unfolding registry_table_def by simp
  ultimately have "find_city ''port_blair'' INDIAN_CITIES = None"
    by (simp only: find_city_None registry_display_keys registry_keys_eq) simp
  with k show ?thesis by (simp add: get_city_info_def)
qed

lemma get_city_info_Port_Blair:
  "\<exists>ci. get_city_info ''Port Blair'' = Inr ci"
proof -
  have "''Port Blair'' \<in> set get_city_list"
    unfolding get_city_list_set registry_table_def by simp
  then obtain key info where "(key, info) \<in> set INDIAN_CITIES" "''Port Blair'' = name info"
    by (auto simp: get_city_list_def)
  with get_city_info_display_name show ?thesis by metis
qed

lemma fetch_exact:
  assumes "cache_lookup E L city_name w = None"
    and "get_city_info city_name = Inr ci"
    and "minus_days (now E) days = Inr s"
    and "\<not> empty_at E s (now E) (lat ci, lon ci)"
    and "can_write E (cache_path L city_name)"
  shows "fetch_historical_data E L city_name days w =
     (Inr (frame_at E s (now E) (lat ci, lon ci), Meteostat city_name (lat ci) (lon ci)),
      w\<lparr>queries := queries w @ [query_of s (now E) (lat ci, lon ci)],
        files := (files w)(cache_path L city_name \<mapsto>
                   \<lparr>mtime = now E, content = frame_at E s (now E) (lat ci, lon ci)\<rparr>)\<rparr>)"
  using assms by (simp add: fetch_miss acquire_exact)

lemma second_call_hits_cache:
  assumes "files w1 (cache_path L c) = Some \<lparr>mtime = m, content = df\<rparr>"
    and "cache_path L c' = cache_path L c"
    and "file_age_days (now E') m < cache_days L"
  shows "fetch_historical_data E' L c' days' w1 = (Inr (df, FileCache c'), w1)"
  using assms by (simp add: fetch_hit cache_lookup_def)

lemma demo_miss: "cache_lookup E demo_loader c demo_world = None"
  by (simp add: cache_lookup_def demo_world_def)

lemma minus_days_in_range:
  "- 999999999 \<le> days \<Longrightarrow> days \<le> 999999999 \<Longrightarrow> datetime_min \<le> t - days * DAY
   \<Longrightarrow> t - days * DAY \<le> datetime_max \<Longrightarrow> minus_days t days = Inr (t - days * DAY)"
  by (simp add: minus_days_def)

lemma minus_days_demo:
  "minus_days 1700000000000000 30 = Inr (1700000000000000 - 30 * DAY)"
  "minus_days 1700000000000000 29 = Inr (1700000000000000 - 29 * DAY)"
  "minus_days 1700000000000000 2 = Inr (1700000000000000 - 2 * DAY)"
  "minus_days 1700000001000000 7 = Inr (1700000001000000 - 7 * DAY)"
  by (simp_all add: minus_days_def DAY_def datetime_min_def datetime_max_def)

lemma now_demo:
  "now demo_env = 1700000000000000" "now later_env = 1700000001000000"
  "now readonly_env = 1700000000000000" "now offline_env = 1700000000000000"
  "now delhi_only_env = 1700000000000000" "now gappy_env = 1700000000000000"
  by (simp_all add: demo_env_def later_env_def readonly_env_def offline_env_def
                    delhi_only_env_def gappy_env_def)

lemma demo_first_call:
  assumes "get_city_info c = Inr ci"
  shows "fetch_historical_data demo_env demo_loader c 30 demo_world =
     (Inr (window_frame (now demo_env - 30 * DAY) (now demo_env), Meteostat c (lat ci) (lon ci)),
      demo_world\<lparr>queries := [query_of (now demo_env - 30 * DAY) (now demo_env) (lat ci, lon ci)],
        files := [cache_path demo_loader c \<mapsto>
                   \<lparr>mtime = now demo_env,
                    content = window_frame (now demo_env - 30 * DAY) (now demo_env)\<rparr>]\<rparr>)"
proof -
  have l: "live demo_env = (\<lambda>la lo s e. window_frame s e)" by (simp add: demo_env_def)
  have m: "minus_days (now demo_env) 30 = Inr (now demo_env - 30 * DAY)"
    by (simp add: now_demo minus_days_demo)
  have ne: "\<not> empty_at demo_env (now demo_env - 30 * DAY) (now demo_env) (lat ci, lon ci)"
    by (simp add: l window_frame_nonempty DAY_def)
  have cw: "can_write demo_env (cache_path demo_loader c)" by (simp add: demo_env_def)
  from fetch_exact [OF demo_miss assms m ne cw] show ?thesis
    by (simp add: l demo_world_def)
qed

section \<open>The tiers of \<open>_fetch_from_meteostat\<close>\<close>

lemma try_offsets_search:
  "try_offsets E la lo s e os (df, w) =
     (case search E s e (map (\<lambda>offset. (la + offset, lo + offset)) os) (df, src, w) of
        (df', src', w') \<Rightarrow> (df', w'))"
proof (induction os arbitrary: df w)
  case Nil
  then show ?case by (simp add: search_Nil)
next
  case (Cons a os)
  then show ?case by (simp add: search_Cons query_def)
qed

lemma try_offsets_diagonal:
  "try_offsets E la lo s e [0.5, 1.0, -0.5, -1.0] (df, w) =
     (case search E s e (diagonal_points la lo) (df, DelhiFallback, w) of
        (df', src', w') \<Rightarrow> (df', w'))"
  by (simp only: try_offsets_search [where src = DelhiFallback] diagonal_points_def)

lemma diagonal_points_nonempty: "diagonal_points la lo \<noteq> []"
  by (simp add: diagonal_points_def)

lemma script_exact:
  assumes "meteostat_ok E" and "minus_days (now E) days = Inr s"
    and "\<not> empty_at E s (now E) (la, lo)"
  shows "fetch_from_meteostat E la lo days w =
     (Inr (cleanup (frame_at E s (now E) (la, lo))),
      w\<lparr>queries := queries w @ [query_of s (now E) (la, lo)]\<rparr>)"
  using assms unfolding fetch_from_meteostat_def query_def try_offsets_diagonal
  by (simp add: Let_def)

lemma script_nearby:
  assumes "meteostat_ok E" and "minus_days (now E) days = Inr s"
    and "empty_at E s (now E) (la, lo)"
    and "find (\<lambda>p. \<not> empty_at E s (now E) p) (diagonal_points la lo) = Some p"
  shows "fetch_from_meteostat E la lo days w =
     (Inr (cleanup (frame_at E s (now E) p)),
      w\<lparr>queries := queries w @ query_of s (now E) (la, lo)
                       # map (query_of s (now E)) (tried (empty_at E s (now E)) (diagonal_points la lo))\<rparr>)"
proof -
  from assms(4) have "\<not> empty_at E s (now E) p" by (auto simp: find_Some_iff)
  with assms show ?thesis
    unfolding fetch_from_meteostat_def query_def try_offsets_diagonal
    by (simp add: Let_def search_hit)
qed

lemma script_synthetic:
  assumes "meteostat_ok E" and "minus_days (now E) days = Inr s"
    and "empty_at E s (now E) (la, lo)"
    and "list_all (empty_at E s (now E)) (diagonal_points la lo)"
  shows "fetch_from_meteostat E la lo days w =
     synthetic_fallback E la lo days
       (w\<lparr>queries := queries w @ query_of s (now E) (la, lo)
                        # map (query_of s (now E)) (diagonal_points la lo)\<rparr>)"
  using assms search_all_empty_frame [OF assms(4) diagonal_points_nonempty]
  unfolding fetch_from_meteostat_def query_def try_offsets_diagonal
  by (simp add: Let_def search_all_empty diagonal_points_nonempty)

lemma synthetic_fallback_queries: "queries (snd (synthetic_fallback E la lo days w)) = queries w"
  by (simp add: synthetic_fallback_def split: prod.splits)

lemma script_queries:
  assumes "meteostat_ok E" and "minus_days (now E) days = Inr s"
  shows "queries (snd (fetch_from_meteostat E la lo days w)) =
     queries w @ map (query_of s (now E))
       (tried (empty_at E s (now E)) ((la, lo) # diagonal_points la lo))"
proof -
  consider (exact) "\<not> empty_at E s (now E) (la, lo)"
    | (nearby) p where "empty_at E s (now E) (la, lo)"
        "find (\<lambda>p. \<not> empty_at E s (now E) p) (diagonal_points la lo) = Some p"
    | (none) "empty_at E s (now E) (la, lo)" "list_all (empty_at E s (now E)) (diagonal_points la lo)"
    using find_not_None [of "empty_at E s (now E)" "diagonal_points la lo"]
    by (cases "find (\<lambda>p. \<not> empty_at E s (now E) p) (diagonal_points la lo)") auto
  then show ?thesis
  proof cases
    case exact
    then show ?thesis by (simp add: script_exact [OF assms] tried_Cons)
  next
    case nearby
    then show ?thesis by (simp add: script_nearby [OF assms] tried_Cons)
  next
    case none
    then show ?thesis
      by (simp add: script_synthetic [OF assms] synthetic_fallback_queries tried_Cons tried_all)
  qed
qed

lemma script_first_hit:
  assumes "meteostat_ok E" and "minus_days (now E) days = Inr s"
    and "find (\<lambda>p. \<not> empty_at E s (now E) p) ((la, lo) # diagonal_points la lo) = Some p"
  shows "fst (fetch_from_meteostat E la lo days w) = Inr (cleanup (frame_at E s (now E) p))"
proof (cases "empty_at E s (now E) (la, lo)")
  case False
  with assms(3) have "p = (la, lo)" by simp
  with False show ?thesis by (simp add: script_exact [OF assms(1,2)])
next
  case True
  with assms(3) have "find (\<lambda>p. \<not> empty_at E s (now E) p) (diagonal_points la lo) = Some p"
    by simp
  with True show ?thesis by (simp add: script_nearby [OF assms(1,2)])
qed

section \<open>The cleanup of missing values in \<open>_fetch_from_meteostat\<close>\<close>





















section \<open>The synthetic generators\<close>

lemma length_draws: "length (fst (draws f n g)) = n"
proof (induction n arbitrary: g)
  case 0
  then show ?case by simp
next
  case (Suc n)
  obtain x g1 where 1: "f g = (x, g1)" by (cases "f g")
  obtain xs g2 where 2: "draws f n g1 = (xs, g2)" by (cases "draws f n g1")
  from Suc [of g1] 2 have "length xs = n" by simp
  with 1 2 show ?case by simp
qed

lemma length_cumsum_from: "length (cumsum_from acc xs) = length xs"
  by (induction xs arbitrary: acc) simp_all

lemma length_zipw: "length (zipw f xs ys) = min (length xs) (length ys)"
  by (simp add: zipw_def)

lemma length_monsoon_where: "length (monsoon_where E p ds) = length ds"
  by (simp add: monsoon_where_def)

lemma complete_rounded_column: "length xs = n \<Longrightarrow> complete_column n (rounded_column xs)"
  by (simp add: complete_column_def rounded_column_def list_all_iff)

lemma rint_ge: "of_int a \<le> x \<Longrightarrow> a \<le> rint x"
proof -
  assume "of_int a \<le> x"
  then have "a \<le> \<lfloor>x\<rfloor>" by (simp add: le_floor_iff)
  then show ?thesis by (simp add: rint_def Let_def)
qed

lemma rint_le: "x \<le> of_int b \<Longrightarrow> rint x \<le> b"
proof -
  assume b: "x \<le> of_int b"
  then have f: "\<lfloor>x\<rfloor> \<le> b" by (simp add: floor_le_iff)
  have "\<lfloor>x\<rfloor> + 1 \<le> b" if "1 / 2 \<le> x - of_int \<lfloor>x\<rfloor>"
  proof -
    from that have "of_int \<lfloor>x\<rfloor> < x" by linarith
    with b have "of_int \<lfloor>x\<rfloor> < (of_int b :: real)" by linarith
    then have "\<lfloor>x\<rfloor> < b" by simp
    then show ?thesis by simp
  qed
  with f show ?thesis by (auto simp: rint_def Let_def not_less)
qed

lemma round1_within:
  assumes "of_int a / 10 \<le> x" and "x \<le> of_int b / 10"
  shows "of_int a / 10 \<le> round1 x \<and> round1 x \<le> of_int b / 10"
proof -
  from assms have "of_int a \<le> x * 10" and "x * 10 \<le> of_int b" by simp_all
  then have "a \<le> rint (x * 10)" and "rint (x * 10) \<le> b" by (simp_all add: rint_ge rint_le)
  then have "(of_int a :: real) \<le> of_int (rint (x * 10))" and "(of_int (rint (x * 10)) :: real) \<le> of_int b"
    by simp_all
  then show ?thesis by (simp add: round1_def divide_right_mono)
qed

lemma clip_within: "lo \<le> hi \<Longrightarrow> lo \<le> clip lo hi x \<and> clip lo hi x \<le> hi"
  by (simp add: clip_def)

lemma round1_clip_150: "0 \<le> round1 (clip 0 150 x) \<and> round1 (clip 0 150 x) \<le> 150"
  using round1_within [of 0 "clip 0 150 x" 1500] clip_within [of 0 150 x] by simp

lemma round1_clip_50: "0 \<le> round1 (clip 0 50 x) \<and> round1 (clip 0 50 x) \<le> 50"
  using round1_within [of 0 "clip 0 50 x" 500] clip_within [of 0 50 x] by simp

lemma column_within_clip_150: "column_within 0 150 (rounded_column (map (clip 0 150) xs))"
  using round1_clip_150 by (simp add: column_within_def rounded_column_def list_all_iff)

lemma column_within_clip_50: "column_within 0 50 (rounded_column (map (clip 0 50) xs))"
  using round1_clip_50 by (simp add: column_within_def rounded_column_def list_all_iff)

lemma column_within_mono:
  "column_within lo hi c \<Longrightarrow> lo' \<le> lo \<Longrightarrow> hi \<le> hi' \<Longrightarrow> column_within lo' hi' c"
  by (auto simp: column_within_def list_all_iff split: option.splits)

lemma generate_synthetic_data_prcp:
  assumes "generate_synthetic_data E city_name start_date end_date g = Inr (df, g')"
  shows "\<exists>xs. prcp df = rounded_column (map (clip 0 150) xs)"
  using assms
  by (auto simp: generate_synthetic_data_def Let_def split: sum.splits if_splits)

lemma generate_synthetic_history_prcp:
  assumes "generate_synthetic_history E la lo days g = (Inr df, g')"
  shows "\<exists>xs. prcp df = rounded_column (map (clip 0 50) xs)"
  using assms
  by (auto simp: generate_synthetic_history_def Let_def split: if_splits)

lemma generate_synthetic_data_complete:
  assumes "get_city_info city_name = Inr ci"
    and "timestamp_ok E start_date" and "timestamp_ok E end_date"
  shows "\<exists>df g'. generate_synthetic_data E city_name start_date end_date g = Inr (df, g')
           \<and> dates df = date_range start_date end_date
           \<and> complete_frame (length (date_range start_date end_date)) df"
  using assms
  by (simp add: generate_synthetic_data_def Let_def complete_frame_def complete_rounded_column
                length_zipw length_draws length_monsoon_where)

lemma generate_synthetic_history_complete:
  assumes "0 \<le> days" and "days = 0 \<or> minus_days (now E) (days - 1) = Inr first_date"
  shows "\<exists>df g'. generate_synthetic_history E la lo days g = (Inr df, g')
           \<and> dates df = map (\<lambda>i. now E - int i * DAY) (rev [0..<nat days])
           \<and> complete_frame (nat days) df"
  using assms
  by (auto simp: generate_synthetic_history_def Let_def complete_frame_def complete_rounded_column
                 length_zipw length_draws length_monsoon_where cumsum_def length_cumsum_from)

text \<open>
  C9. Every precipitation value of a synthetic series is present and lies in the closed
  interval from 0 to 150, for the generator of the loader (which clips to 0 and 150) and for
  the generator of the stand-alone script (which clips to 0 and 50), whatever the location,
  the window and the random draws are.
\<close>

theorem synthetic_precipitation_range:
  "(\<forall>df g'. generate_synthetic_data E city_name start_date end_date g = Inr (df, g')
        \<longrightarrow> column_within 0 150 (prcp df))
   \<and> (\<forall>df g'. generate_synthetic_history E la lo days g = (Inr df, g')
        \<longrightarrow> column_within 0 150 (prcp df))"
proof (intro conjI allI impI)
  fix df g'
  assume "generate_synthetic_data E city_name start_date end_date g = Inr (df, g')"
  from generate_synthetic_data_prcp [OF this]
  obtain xs where "prcp df = rounded_column (map (clip 0 150) xs)" by blast
  then show "column_within 0 150 (prcp df)" by (simp add: column_within_clip_150)
next
  fix df g'
  assume "generate_synthetic_history E la lo days g = (Inr df, g')"
  from generate_synthetic_history_prcp [OF this]
  obtain xs where "prcp df = rounded_column (map (clip 0 50) xs)" by blast
  then have "column_within 0 50 (prcp df)" by (simp add: column_within_clip_50)
  then show "column_within 0 150 (prcp df)" by (rule column_within_mono) simp_all
qed

theorem synthetic_precipitation_range_witness:
  "\<not> isl (generate_synthetic_data demo_env ''Delhi'' (now demo_env - 2 * DAY) (now demo_env) 0)
   \<and> column_within 0 150
        (prcp (fst (projr (generate_synthetic_data demo_env ''Delhi''
                              (now demo_env - 2 * DAY) (now demo_env) 0))))
   \<and> length (dates (fst (projr (generate_synthetic_data demo_env ''Delhi''
                              (now demo_env - 2 * DAY) (now demo_env) 0)))) = 3
   \<and> fst (generate_synthetic_history demo_env 10 20 3 0)
       = Inr (projr (fst (generate_synthetic_history demo_env 10 20 3 0)))
   \<and> column_within 0 150 (prcp (projr (fst (generate_synthetic_history demo_env 10 20 3 0))))"
proof -
  obtain df g' where
    1: "generate_synthetic_data demo_env ''Delhi'' (now demo_env - 2 * DAY) (now demo_env) 0 = Inr (df, g')"
    and d: "dates df = date_range (now demo_env - 2 * DAY) (now demo_env)"
    using generate_synthetic_data_complete [OF get_city_info_Delhi,
            of demo_env "now demo_env - 2 * DAY" "now demo_env" 0]
    by (auto simp: demo_env_def DAY_def)
  obtain dh gh where
    2: "generate_synthetic_history demo_env 10 20 3 0 = (Inr dh, gh)"
    using generate_synthetic_history_complete [of 3 demo_env "now demo_env - 2 * DAY" 10 20 0]
    by (auto simp: now_demo minus_days_demo)
  have l: "length (date_range (now demo_env - 2 * DAY) (now demo_env)) = 3"
    by (simp add: length_date_range DAY_def)
  from synthetic_precipitation_range [of demo_env "''Delhi''" "now demo_env - 2 * DAY" "now demo_env" 0 10 20 3]
    1 2
  have "column_within 0 150 (prcp df)" and "column_within 0 150 (prcp dh)" by blast+
  with 1 2 d l show ?thesis by simp
qed

text \<open>
  C2. On the loader the claim fails by one row: \<open>fetch_historical_data\<close> sets the window to
  \<open>now - days\<close> and \<open>now\<close>, and \<open>_generate_synthetic_data\<close> makes one row for every day of
  \<open>pd.date_range(start, end)\<close>, both ends included. With no data from Meteostat, a call for
  30 days returns a complete synthetic series of 31 rows. (The generator of the stand-alone
  script returns \<open>days\<close> rows, see \<open>synthetic_history_rows\<close>.)
\<close>

theorem synthetic_data_one_row_more:
  "fst (fetch_historical_data offline_env demo_loader ''Delhi'' 30 demo_world)
     = Inr (fst (projr (generate_synthetic_data offline_env ''Delhi''
                          (now offline_env - 30 * DAY) (now offline_env) 0)),
            Synthetic ''Delhi'')
   \<and> \<not> isl (generate_synthetic_data offline_env ''Delhi''
               (now offline_env - 30 * DAY) (now offline_env) 0)
   \<and> complete_frame 31
        (fst (projr (generate_synthetic_data offline_env ''Delhi''
                       (now offline_env - 30 * DAY) (now offline_env) 0)))"
proof -
  let ?s = "now offline_env - 30 * DAY" and ?e = "now offline_env"
  obtain df g' where
    1: "generate_synthetic_data offline_env ''Delhi'' ?s ?e 0 = Inr (df, g')"
    and c: "complete_frame (length (date_range ?s ?e)) df"
    using generate_synthetic_data_complete [OF get_city_info_Delhi, of offline_env ?s ?e 0]
    by (auto simp: offline_env_def demo_env_def DAY_def)
  have l: "length (date_range ?s ?e) = 31"
    by (simp add: length_date_range DAY_def)
  have emp: "empty_at offline_env ?s ?e p" for p
    by (simp add: offline_env_def df_empty_def no_rows_def)
  have cw: "can_write offline_env (cache_path demo_loader ''Delhi'')"
    by (simp add: offline_env_def demo_env_def)
  have r: "rng_state demo_world = 0" by (simp add: demo_world_def)
  let ?ci = "\<lparr>name = ''Delhi'', lat = 28.7041, lon = 77.1025, state = ''Delhi''\<rparr>"
  have n: "list_all (empty_at offline_env ?s ?e) (nearby_points ?ci)"
    using emp by (simp add: list_all_iff)
  have "fst (acquire offline_env ''Delhi'' ?ci ?s ?e demo_world) = Inr (df, Synthetic ''Delhi'')"
    unfolding acquire_synthetic [OF emp n emp] r 1 by simp
  moreover have "minus_days (now offline_env) 30 = Inr ?s"
    by (simp add: now_demo minus_days_demo)
  ultimately have "fst (fetch_historical_data offline_env demo_loader ''Delhi'' 30 demo_world)
        = Inr (df, Synthetic ''Delhi'')"
    using fetch_miss_result [OF demo_miss get_city_info_Delhi _ cw, of 30 ?s] by simp
  with 1 c l show ?thesis by simp
qed

lemma synthetic_history_rows:
  assumes "0 < days" and "minus_days (now E) (days - 1) = Inr first_date"
  shows "\<exists>df g'. generate_synthetic_history E la lo days g = (Inr df, g')
           \<and> complete_frame (nat days) df
           \<and> dates df = map (\<lambda>i. now E - int i * DAY) (rev [0..<nat days])"
  using generate_synthetic_history_complete [of days E first_date la lo g] assms by auto


section \<open>The claims about \<open>fetch_historical_data\<close>\<close>

text \<open>
  C5. For a stored cache entry, the lookup returns the stored series if and only if the age of
  the file, the whole days of the time since its modification time (the microseconds divided
  by 86400000000 and rounded down), is below \<open>cache_days\<close>; the call then returns that series
  as the file-cache result and changes nothing. An entry of that age or older is reported
  absent whatever it holds: the call never returns a file-cache result, it looks the city up,
  queries Meteostat from the city's own point on and stores what it acquired.
\<close>

theorem cache_fresh_iff:
  assumes "files w (cache_path L city_name) = Some f"
  shows "((cache_lookup E L city_name w = Some (content f))
            = ((now E - mtime f) div 86400000000 < cache_days L))
       \<and> ((cache_lookup E L city_name w = None)
            = (\<not> (now E - mtime f) div 86400000000 < cache_days L))
       \<and> ((now E - mtime f) div 86400000000 < cache_days L \<longrightarrow>
            fetch_historical_data E L city_name days w = (Inr (content f, FileCache city_name), w))
       \<and> (\<not> (now E - mtime f) div 86400000000 < cache_days L \<longrightarrow>
            (\<forall>df x w'. fetch_historical_data E L city_name days w \<noteq> (Inr (df, FileCache x), w'))
            \<and> fetch_historical_data E L city_name days w =
                (case get_city_info city_name of
                   Inl err \<Rightarrow> (Inl err, w)
                 | Inr city_info \<Rightarrow>
                    (case minus_days (now E) days of
                       Inl err \<Rightarrow> (Inl err, w)
                     | Inr start_date \<Rightarrow>
                        (case acquire E city_name city_info start_date (now E) w of
                           (Inl err, w1) \<Rightarrow> (Inl err, w1)
                         | (Inr (df, src), w1) \<Rightarrow>
                             if can_write E (cache_path L city_name)
                             then (Inr (df, src),
                                   w1\<lparr>files := (files w1)(cache_path L city_name \<mapsto>
                                                  \<lparr>mtime = now E, content = df\<rparr>)\<rparr>)
                             else (Inl (OSError (cache_path L city_name)), w1))))
            \<and> (\<forall>city_info start_date.
                  get_city_info city_name = Inr city_info \<and> minus_days (now E) days = Inr start_date
                  \<longrightarrow> queries (snd (fetch_historical_data E L city_name days w))
                        = queries w @ map (query_of start_date (now E))
                            (tried (empty_at E start_date (now E))
                               ((lat city_info, lon city_info) # nearby_points city_info
                                @ [(28.7041, 77.1025)]))))"
proof (cases "(now E - mtime f) div 86400000000 < cache_days L")
  case True
  with assms have "cache_lookup E L city_name w = Some (content f)"
    by (simp add: cache_lookup_def file_age_days_def DAY_def)
  with True show ?thesis by (simp add: fetch_hit)
next
  case False
  with assms have m: "cache_lookup E L city_name w = None"
    by (simp add: cache_lookup_def file_age_days_def DAY_def)
  have q: "queries (snd (fetch_historical_data E L city_name days w))
           = queries w @ map (query_of s (now E))
               (tried (empty_at E s (now E)) ((lat ci, lon ci) # nearby_points ci @ [(28.7041, 77.1025)]))"
    if "get_city_info city_name = Inr ci" "minus_days (now E) days = Inr s" for ci s
    using that by (simp only: fetch_miss_queries [OF m] acquire_queries)
  from m False q fetch_not_cache_tag [OF m] show ?thesis
    by (simp add: fetch_miss [OF m])
qed

theorem cache_fresh_iff_witness:
  "files cached_world (cache_path demo_loader ''Delhi'') = Some cached_file
   \<and> (now demo_env - mtime cached_file) div 86400000000 < cache_days demo_loader
   \<and> fetch_historical_data demo_env demo_loader ''Delhi'' 30 cached_world
       = (Inr (content cached_file, FileCache ''Delhi''), cached_world)
   \<and> files almost_day_old_world (cache_path demo_loader ''Delhi'')
       = Some (day_old_file\<lparr>mtime := 1699913600000001\<rparr>)
   \<and> cache_lookup demo_env demo_loader ''Delhi'' almost_day_old_world = Some (content day_old_file)
   \<and> files day_old_world (cache_path demo_loader ''Delhi'') = Some day_old_file
   \<and> \<not> (now demo_env - mtime day_old_file) div 86400000000 < cache_days demo_loader
   \<and> cache_lookup demo_env demo_loader ''Delhi'' day_old_world = None
   \<and> fst (fetch_historical_data demo_env demo_loader ''Delhi'' 30 day_old_world)
       = Inr (window_frame (now demo_env - 30 * DAY) (now demo_env),
              Meteostat ''Delhi'' 28.7041 77.1025)
   \<and> queries (snd (fetch_historical_data demo_env demo_loader ''Delhi'' 30 day_old_world))
       = [(28.7041, 77.1025, now demo_env - 30 * DAY, now demo_env)]"
proof -
  let ?ci = "\<lparr>name = ''Delhi'', lat = 28.7041, lon = 77.1025, state = ''Delhi''\<rparr>"
  let ?s = "now demo_env - 30 * DAY"
  have h1: "files cached_world (cache_path demo_loader ''Delhi'') = Some cached_file"
    by (simp add: cache_path_demo cached_world_def)
  have a1: "(now demo_env - mtime cached_file) div 86400000000 < cache_days demo_loader"
    by (simp add: now_demo cached_file_def demo_loader_def)
  have h2: "files almost_day_old_world (cache_path demo_loader ''Delhi'')
            = Some (day_old_file\<lparr>mtime := 1699913600000001\<rparr>)"
    by (simp add: cache_path_demo almost_day_old_world_def)
  have a2: "(now demo_env - mtime (day_old_file\<lparr>mtime := 1699913600000001\<rparr>)) div 86400000000
            < cache_days demo_loader"
    by (simp add: now_demo demo_loader_def)
  have h3: "files day_old_world (cache_path demo_loader ''Delhi'') = Some day_old_file"
    by (simp add: cache_path_demo day_old_world_def)
  have a3: "\<not> (now demo_env - mtime day_old_file) div 86400000000 < cache_days demo_loader"
    by (simp add: now_demo day_old_file_def demo_loader_def)
  have l: "live demo_env = (\<lambda>la lo s e. window_frame s e)" by (simp add: demo_env_def)
  have m: "minus_days (now demo_env) 30 = Inr ?s" by (simp add: now_demo minus_days_demo)
  have ne: "\<not> empty_at demo_env ?s (now demo_env) (lat ?ci, lon ?ci)"
    by (simp add: l window_frame_nonempty DAY_def)
  have cw: "can_write demo_env (cache_path demo_loader ''Delhi'')" by (simp add: demo_env_def)
  have q0: "queries day_old_world = []" by (simp add: day_old_world_def demo_world_def)
  from cache_fresh_iff [OF h1, of demo_env 30] a1
  have 1: "fetch_historical_data demo_env demo_loader ''Delhi'' 30 cached_world
           = (Inr (content cached_file, FileCache ''Delhi''), cached_world)"
    by blast
  from cache_fresh_iff [OF h2, of demo_env 30] a2
  have 2: "cache_lookup demo_env demo_loader ''Delhi'' almost_day_old_world = Some (content day_old_file)"
    by simp
  note t = cache_fresh_iff [OF h3, of demo_env 30]
  from t a3 have 3: "cache_lookup demo_env demo_loader ''Delhi'' day_old_world = None"
    by blast
  note ae = acquire_exact [OF ne, of "''Delhi''" day_old_world]
  have fe: "fetch_historical_data demo_env demo_loader ''Delhi'' 30 day_old_world =
      (case acquire demo_env ''Delhi'' ?ci ?s (now demo_env) day_old_world of
         (Inl err, w1) \<Rightarrow> (Inl err, w1)
       | (Inr (df, src), w1) \<Rightarrow>
           if can_write demo_env (cache_path demo_loader ''Delhi'')
           then (Inr (df, src),
                 w1\<lparr>files := (files w1)(cache_path demo_loader ''Delhi'' \<mapsto>
                                \<lparr>mtime = now demo_env, content = df\<rparr>)\<rparr>)
           else (Inl (OSError (cache_path demo_loader ''Delhi'')), w1))"
    using t a3 by (simp add: get_city_info_Delhi m)
  have 4: "fst (fetch_historical_data demo_env demo_loader ''Delhi'' 30 day_old_world)
      = Inr (window_frame ?s (now demo_env), Meteostat ''Delhi'' 28.7041 77.1025)"
    unfolding fe ae using cw by (simp add: l)
  from t a3 get_city_info_Delhi m
  have "queries (snd (fetch_historical_data demo_env demo_loader ''Delhi'' 30 day_old_world))
      = queries day_old_world @ map (query_of ?s (now demo_env))
          (tried (empty_at demo_env ?s (now demo_env))
             ((lat ?ci, lon ?ci) # nearby_points ?ci @ [(28.7041, 77.1025)]))"
    by blast
  then have 5: "queries (snd (fetch_historical_data demo_env demo_loader ''Delhi'' 30 day_old_world))
      = [(28.7041, 77.1025, ?s, now demo_env)]"
    using ne by (simp add: q0 tried_Cons)
  from h1 a1 1 h2 2 h3 a3 3 4 5 show ?thesis by simp
qed

lemma get_city_info_Mumbai:
  "get_city_info ''Mumbai'' = Inr \<lparr>name = ''Mumbai'', lat = 19.076, lon = 72.8777, state = ''Maharashtra''\<rparr>"
  by (simp add: get_city_info_def INDIAN_CITIES_def lower_def remove_char_def lower_char_table)

lemma delhi_only_live:
  "live delhi_only_env =
     (\<lambda>la lo s e. if la = 28.7041 \<and> lo = 77.1025 then window_frame s e else no_rows)"
  "live delhi_only_readonly_env =
     (\<lambda>la lo s e. if la = 28.7041 \<and> lo = 77.1025 then window_frame s e else no_rows)"
  by (simp_all add: delhi_only_env_def delhi_only_readonly_env_def)

lemma no_rows_empty: "df_empty no_rows"
  by (simp add: df_empty_def no_rows_def)

text \<open>
  C1 as stated fails. The stand-alone script has no reference tier: with no rows at the
  point of Mumbai and at its four nearby points, and rows at Delhi, \<open>_fetch_from_meteostat\<close>
  sends five queries, none to Delhi, and returns the synthetic series. On the loader the
  Delhi series is not returned either when the cache file cannot be written, or when the
  cache holds a fresh file for the city.
\<close>

theorem reference_tier_not_reached:
  "empty_at delhi_only_env (now delhi_only_env - 30 * DAY) (now delhi_only_env) (19.076, 72.8777)
   \<and> all_empty delhi_only_env (now delhi_only_env - 30 * DAY) (now delhi_only_env)
        (diagonal_points 19.076 72.8777)
   \<and> all_empty delhi_only_env (now delhi_only_env - 30 * DAY) (now delhi_only_env)
        (nearby_points \<lparr>name = ''Mumbai'', lat = 19.076, lon = 72.8777, state = ''Maharashtra''\<rparr>)
   \<and> \<not> empty_at delhi_only_env (now delhi_only_env - 30 * DAY) (now delhi_only_env) (28.7041, 77.1025)
   \<and> fetch_from_meteostat delhi_only_env 19.076 72.8777 30 demo_world
       = synthetic_fallback delhi_only_env 19.076 72.8777 30
           (demo_world\<lparr>queries :=
              [(19.076, 72.8777, now delhi_only_env - 30 * DAY, now delhi_only_env),
               (19.576, 73.3777, now delhi_only_env - 30 * DAY, now delhi_only_env),
               (20.076, 73.8777, now delhi_only_env - 30 * DAY, now delhi_only_env),
               (18.576, 72.3777, now delhi_only_env - 30 * DAY, now delhi_only_env),
               (18.076, 71.8777, now delhi_only_env - 30 * DAY, now delhi_only_env)]\<rparr>)
   \<and> fst (fetch_from_meteostat delhi_only_env 19.076 72.8777 30 demo_world)
       \<noteq> Inr (cleanup (window_frame (now delhi_only_env - 30 * DAY) (now delhi_only_env)))
   \<and> fst (fetch_historical_data delhi_only_readonly_env demo_loader ''Mumbai'' 30 demo_world)
       = Inl (OSError ''data/raw/mumbai_30days.csv'')
   \<and> fetch_historical_data delhi_only_env demo_loader ''Mumbai'' 30 mumbai_cached_world
       = (Inr (content cached_file, FileCache ''Mumbai''), mumbai_cached_world)"
proof -
  let ?ci = "\<lparr>name = ''Mumbai'', lat = 19.076, lon = 72.8777, state = ''Maharashtra''\<rparr>"
  let ?s = "now delhi_only_env - 30 * DAY" and ?e = "now delhi_only_env"
  note l = delhi_only_live
  have se: "?s \<le> ?e" by (simp add: DAY_def)
  have ok: "meteostat_ok delhi_only_env" by (simp add: delhi_only_env_def demo_env_def)
  have m: "minus_days (now delhi_only_env) 30 = Inr ?s" by (simp add: now_demo minus_days_demo)
  have x: "empty_at delhi_only_env ?s ?e (19.076, 72.8777)" by (simp add: l no_rows_empty)
  have dg: "list_all (empty_at delhi_only_env ?s ?e) (diagonal_points 19.076 72.8777)"
    by (simp add: l no_rows_empty diagonal_points_def)
  have nb: "list_all (empty_at delhi_only_env ?s ?e) (nearby_points ?ci)"
    by (simp add: l no_rows_empty nearby_points_def)
  have d: "\<not> empty_at delhi_only_env ?s ?e (28.7041, 77.1025)"
    using window_frame_nonempty [OF se] by (simp add: l)
  have q0: "queries demo_world = []" by (simp add: demo_world_def)
  have 1: "fetch_from_meteostat delhi_only_env 19.076 72.8777 30 demo_world
       = synthetic_fallback delhi_only_env 19.076 72.8777 30
           (demo_world\<lparr>queries := [(19.076, 72.8777, ?s, ?e), (19.576, 73.3777, ?s, ?e),
               (20.076, 73.8777, ?s, ?e), (18.576, 72.3777, ?s, ?e), (18.076, 71.8777, ?s, ?e)]\<rparr>)"
    unfolding script_synthetic [OF ok m x dg] by (simp add: q0 diagonal_points_def)
  obtain df g where h: "generate_synthetic_history delhi_only_env 19.076 72.8777 30 0 = (Inr df, g)"
    and c: "complete_frame (nat 30) df"
    using generate_synthetic_history_complete [of 30 delhi_only_env "now delhi_only_env - 29 * DAY"
            "19.076" "72.8777" 0]
    by (auto simp: now_demo minus_days_demo)
  have r0: "rng_state demo_world = 0" by (simp add: demo_world_def)
  have "fst (fetch_from_meteostat delhi_only_env 19.076 72.8777 30 demo_world) = Inr df"
    unfolding 1 by (simp add: synthetic_fallback_def r0 h [simplified])
  moreover have "length (dates df) = 30" using c by (simp add: complete_frame_def)
  moreover have "length (dates (cleanup (window_frame ?s ?e))) = 31"
    by (simp add: cleanup_def window_frame_def Let_def length_date_range DAY_def)
  ultimately have 2: "fst (fetch_from_meteostat delhi_only_env 19.076 72.8777 30 demo_world)
       \<noteq> Inr (cleanup (window_frame ?s ?e))"
    by auto
  let ?s' = "now delhi_only_readonly_env - 30 * DAY" and ?e' = "now delhi_only_readonly_env"
  have se': "?s' \<le> ?e'" by (simp add: DAY_def)
  have x': "empty_at delhi_only_readonly_env ?s' ?e' (lat ?ci, lon ?ci)"
    by (simp add: l no_rows_empty)
  have nb': "list_all (empty_at delhi_only_readonly_env ?s' ?e') (nearby_points ?ci)"
    by (simp add: l no_rows_empty nearby_points_def)
  have d': "\<not> empty_at delhi_only_readonly_env ?s' ?e' (28.7041, 77.1025)"
    using window_frame_nonempty [OF se'] by (simp add: l)
  have m': "minus_days (now delhi_only_readonly_env) 30 = Inr ?s'"
    by (simp add: delhi_only_readonly_env_def now_demo minus_days_demo)
  have cw': "\<not> can_write delhi_only_readonly_env (cache_path demo_loader ''Mumbai'')"
    by (simp add: delhi_only_readonly_env_def)
  note ad = acquire_delhi [OF x' nb' d', of "''Mumbai''" demo_world]
  have 3: "fst (fetch_historical_data delhi_only_readonly_env demo_loader ''Mumbai'' 30 demo_world)
       = Inl (OSError ''data/raw/mumbai_30days.csv'')"
    unfolding fetch_miss [OF demo_miss] get_city_info_Mumbai m' sum.case ad
    using cw' by (simp add: cache_path_demo)
  have f: "files mumbai_cached_world (cache_path demo_loader ''Mumbai'') = Some cached_file"
    by (simp add: cache_path_demo mumbai_cached_world_def)
  have "cache_lookup delhi_only_env demo_loader ''Mumbai'' mumbai_cached_world
        = Some (content cached_file)"
    using f by (simp add: cache_lookup_def file_age_days_def now_demo cached_file_def
                          demo_loader_def DAY_def)
  then have 4: "fetch_historical_data delhi_only_env demo_loader ''Mumbai'' 30 mumbai_cached_world
       = (Inr (content cached_file, FileCache ''Mumbai''), mumbai_cached_world)"
    by (rule fetch_hit)
  from x dg nb d 1 2 3 4 show ?thesis by (simp add: all_empty_def)
qed

text \<open>
  C1, amended. On the loader, when the cache has no fresh entry for the city, the city is in
  the registry and the start of the window is a date that \<open>datetime\<close> can hold: if Meteostat
  answers with no rows at the city's coordinates and at all sixteen nearby points, but with rows
  at the coordinates of Delhi, and the cache file can be written, the call returns the Delhi
  frame with the source "Delhi fallback"; whatever Meteostat answers, the call queries the
  city's point, the nearby points and Delhi in this order and stops at the first answer that
  has rows, which is the frame it returns. The stand-alone script has no reference tier: it
  queries the exact point and its four nearby points in order, stops at the first answer that
  has rows and returns that frame cleaned up, and returns the synthetic series when all five
  answers are empty.
\<close>

theorem delhi_fallback_order:
  assumes "minus_days (now E) days = Inr s" and "e = now E"
  shows "(cache_lookup E L city_name w = None \<and> get_city_info city_name = Inr ci \<longrightarrow>
           (empty_at E s e (lat ci, lon ci) \<and> list_all (empty_at E s e) (nearby_points ci)
              \<and> \<not> empty_at E s e (28.7041, 77.1025) \<and> can_write E (cache_path L city_name)
            \<longrightarrow> fst (fetch_historical_data E L city_name days w)
                  = Inr (frame_at E s e (28.7041, 77.1025), DelhiFallback))
           \<and> queries (snd (fetch_historical_data E L city_name days w))
               = queries w @ map (query_of s e)
                   (tried (empty_at E s e) ((lat ci, lon ci) # nearby_points ci @ [(28.7041, 77.1025)]))
           \<and> (\<forall>p. find (\<lambda>p. \<not> empty_at E s e p)
                      ((lat ci, lon ci) # nearby_points ci @ [(28.7041, 77.1025)]) = Some p
                   \<and> can_write E (cache_path L city_name)
                 \<longrightarrow> (\<exists>src. fst (fetch_historical_data E L city_name days w)
                              = Inr (frame_at E s e p, src))))
       \<and> (meteostat_ok E \<longrightarrow>
           queries (snd (fetch_from_meteostat E la lo days w))
             = queries w @ map (query_of s e)
                 (tried (empty_at E s e) ((la, lo) # diagonal_points la lo))
           \<and> (\<forall>p. find (\<lambda>p. \<not> empty_at E s e p) ((la, lo) # diagonal_points la lo) = Some p
                 \<longrightarrow> fst (fetch_from_meteostat E la lo days w) = Inr (cleanup (frame_at E s e p)))
           \<and> (empty_at E s e (la, lo) \<and> list_all (empty_at E s e) (diagonal_points la lo)
               \<longrightarrow> fetch_from_meteostat E la lo days w
                     = synthetic_fallback E la lo days
                         (w\<lparr>queries := queries w @ map (query_of s e) ((la, lo) # diagonal_points la lo)\<rparr>)))"
proof (intro conjI impI allI)
  assume c: "cache_lookup E L city_name w = None \<and> get_city_info city_name = Inr ci"
  assume h: "empty_at E s e (lat ci, lon ci) \<and> list_all (empty_at E s e) (nearby_points ci)
            \<and> \<not> empty_at E s e (28.7041, 77.1025) \<and> can_write E (cache_path L city_name)"
  then have "acquire E city_name ci s e w =
     (Inr (frame_at E s e (28.7041, 77.1025), DelhiFallback),
      w\<lparr>queries := queries w @ query_of s e (lat ci, lon ci)
                       # map (query_of s e) (nearby_points ci) @ [query_of s e (28.7041, 77.1025)]\<rparr>)"
    by (intro acquire_delhi) simp_all
  with h c assms show "fst (fetch_historical_data E L city_name days w)
                = Inr (frame_at E s e (28.7041, 77.1025), DelhiFallback)"
    by (simp add: fetch_miss_result)
next
  assume c: "cache_lookup E L city_name w = None \<and> get_city_info city_name = Inr ci"
  with assms show "queries (snd (fetch_historical_data E L city_name days w))
           = queries w @ map (query_of s e)
               (tried (empty_at E s e) ((lat ci, lon ci) # nearby_points ci @ [(28.7041, 77.1025)]))"
    by (simp only: fetch_miss_queries acquire_queries)
next
  fix p
  assume c: "cache_lookup E L city_name w = None \<and> get_city_info city_name = Inr ci"
  assume h: "find (\<lambda>p. \<not> empty_at E s e p)
                  ((lat ci, lon ci) # nearby_points ci @ [(28.7041, 77.1025)]) = Some p
               \<and> can_write E (cache_path L city_name)"
  then have "\<exists>src. fst (acquire E city_name ci s e w) = Inr (frame_at E s e p, src)"
    by (intro acquire_first_hit) simp
  with h c assms show "\<exists>src. fst (fetch_historical_data E L city_name days w)
                          = Inr (frame_at E s e p, src)"
    by (simp add: fetch_miss_result)
next
  assume "meteostat_ok E"
  with assms show "queries (snd (fetch_from_meteostat E la lo days w))
             = queries w @ map (query_of s e)
                 (tried (empty_at E s e) ((la, lo) # diagonal_points la lo))"
    by (simp add: script_queries)
next
  fix p
  assume "meteostat_ok E"
    and "find (\<lambda>p. \<not> empty_at E s e p) ((la, lo) # diagonal_points la lo) = Some p"
  with assms show "fst (fetch_from_meteostat E la lo days w) = Inr (cleanup (frame_at E s e p))"
    by (simp add: script_first_hit)
next
  assume "meteostat_ok E"
    and "empty_at E s e (la, lo) \<and> list_all (empty_at E s e) (diagonal_points la lo)"
  with assms show "fetch_from_meteostat E la lo days w
                     = synthetic_fallback E la lo days
                         (w\<lparr>queries := queries w @ map (query_of s e) ((la, lo) # diagonal_points la lo)\<rparr>)"
    by (simp add: script_synthetic)
qed

theorem delhi_fallback_order_witness:
  "minus_days (now delhi_only_env) 30 = Inr (now delhi_only_env - 30 * DAY)
   \<and> cache_lookup delhi_only_env demo_loader ''Mumbai'' demo_world = None
   \<and> get_city_info ''Mumbai''
       = Inr \<lparr>name = ''Mumbai'', lat = 19.076, lon = 72.8777, state = ''Maharashtra''\<rparr>
   \<and> empty_at delhi_only_env (now delhi_only_env - 30 * DAY) (now delhi_only_env) (19.076, 72.8777)
   \<and> list_all (empty_at delhi_only_env (now delhi_only_env - 30 * DAY) (now delhi_only_env))
        (nearby_points \<lparr>name = ''Mumbai'', lat = 19.076, lon = 72.8777, state = ''Maharashtra''\<rparr>)
   \<and> \<not> empty_at delhi_only_env (now delhi_only_env - 30 * DAY) (now delhi_only_env) (28.7041, 77.1025)
   \<and> can_write delhi_only_env (cache_path demo_loader ''Mumbai'')
   \<and> fst (fetch_historical_data delhi_only_env demo_loader ''Mumbai'' 30 demo_world)
       = Inr (window_frame (now delhi_only_env - 30 * DAY) (now delhi_only_env), DelhiFallback)
   \<and> length (queries (snd (fetch_historical_data delhi_only_env demo_loader ''Mumbai'' 30 demo_world)))
       = 18
   \<and> meteostat_ok delhi_only_env
   \<and> list_all (empty_at delhi_only_env (now delhi_only_env - 30 * DAY) (now delhi_only_env))
        (diagonal_points 19.076 72.8777)
   \<and> length (queries (snd (fetch_from_meteostat delhi_only_env 19.076 72.8777 30 demo_world))) = 5"
proof -
  let ?ci = "\<lparr>name = ''Mumbai'', lat = 19.076, lon = 72.8777, state = ''Maharashtra''\<rparr>"
  let ?s = "now delhi_only_env - 30 * DAY"
  let ?e = "now delhi_only_env"
  note l = delhi_only_live(1)
  have se: "?s \<le> ?e" by (simp add: DAY_def)
  have md: "minus_days (now delhi_only_env) 30 = Inr ?s" by (simp add: now_demo minus_days_demo)
  have ok: "meteostat_ok delhi_only_env" by (simp add: delhi_only_env_def demo_env_def)
  have x: "empty_at delhi_only_env ?s ?e (lat ?ci, lon ?ci)" by (simp add: l no_rows_empty)
  have x2: "empty_at delhi_only_env ?s ?e (19.076, 72.8777)" by (simp add: l no_rows_empty)
  have n: "list_all (empty_at delhi_only_env ?s ?e) (nearby_points ?ci)"
    by (simp add: l no_rows_empty nearby_points_def)
  have dg: "list_all (empty_at delhi_only_env ?s ?e) (diagonal_points 19.076 72.8777)"
    by (simp add: l no_rows_empty diagonal_points_def)
  have d: "\<not> empty_at delhi_only_env ?s ?e (28.7041, 77.1025)"
    using window_frame_nonempty [OF se] by (simp add: l)
  have cw: "can_write delhi_only_env (cache_path demo_loader ''Mumbai'')"
    by (simp add: delhi_only_env_def demo_env_def)
  have m: "cache_lookup delhi_only_env demo_loader ''Mumbai'' demo_world = None"
    by (rule demo_miss)
  have q0: "queries demo_world = []" by (simp add: demo_world_def)
  note t = delhi_fallback_order [OF md refl, of demo_loader "''Mumbai''" demo_world ?ci
             "19.076" "72.8777"]
  from t m get_city_info_Mumbai x n d cw
  have r: "fst (fetch_historical_data delhi_only_env demo_loader ''Mumbai'' 30 demo_world)
           = Inr (frame_at delhi_only_env ?s ?e (28.7041, 77.1025), DelhiFallback)"
    by blast
  from t m get_city_info_Mumbai
  have "queries (snd (fetch_historical_data delhi_only_env demo_loader ''Mumbai'' 30 demo_world))
      = queries demo_world @ map (query_of ?s ?e)
          (tried (empty_at delhi_only_env ?s ?e) ((lat ?ci, lon ?ci) # nearby_points ?ci @ [(28.7041, 77.1025)]))"
    by blast
  also have "tried (empty_at delhi_only_env ?s ?e) ((lat ?ci, lon ?ci) # nearby_points ?ci @ [(28.7041, 77.1025)])
      = (lat ?ci, lon ?ci) # nearby_points ?ci @ [(28.7041, 77.1025)]"
    using x n by (simp add: tried_Cons tried_Nil tried_append)
  finally have q: "length (queries (snd (fetch_historical_data delhi_only_env demo_loader ''Mumbai'' 30 demo_world)))
      = 18"
    by (simp add: q0 nearby_points_def)
  from t ok
  have "queries (snd (fetch_from_meteostat delhi_only_env 19.076 72.8777 30 demo_world))
      = queries demo_world @ map (query_of ?s ?e)
          (tried (empty_at delhi_only_env ?s ?e) ((19.076, 72.8777) # diagonal_points 19.076 72.8777))"
    by blast
  also have "tried (empty_at delhi_only_env ?s ?e) ((19.076, 72.8777) # diagonal_points 19.076 72.8777)
      = (19.076, 72.8777) # diagonal_points 19.076 72.8777"
    using x2 dg by (simp add: tried_Cons tried_all)
  finally have q2: "length (queries (snd (fetch_from_meteostat delhi_only_env 19.076 72.8777 30 demo_world))) = 5"
    by (simp add: q0 diagonal_points_def)
  from md m x n d cw r q ok dg q2 show ?thesis
    by (simp add: get_city_info_Mumbai l)
qed

section \<open>The order of the cache check, the lookup and the write\<close>

text \<open>
  C4 as stated fails: the file cache is read before the city is looked up. The name
  \<open>port_blair\<close> is not in the registry, but its cache file is the one of \<open>Port Blair\<close>, so
  after a call for \<open>Port Blair\<close> a call for \<open>port_blair\<close> returns the cached series.
\<close>

theorem unknown_city_served_from_cache:
  "get_city_info ''port_blair'' = Inl (CityNotFound ''port_blair'')
   \<and> fst (fetch_historical_data later_env demo_loader ''port_blair'' 30
            (snd (fetch_historical_data demo_env demo_loader ''Port Blair'' 30 demo_world)))
       = Inr (window_frame (now demo_env - 30 * DAY) (now demo_env), FileCache ''port_blair'')"
proof -
  obtain ci where ci: "get_city_info ''Port Blair'' = Inr ci"
    using get_city_info_Port_Blair by blast
  let ?w1 = "snd (fetch_historical_data demo_env demo_loader ''Port Blair'' 30 demo_world)"
  have f: "files ?w1 (cache_path demo_loader ''Port Blair'')
           = Some \<lparr>mtime = now demo_env,
                   content = window_frame (now demo_env - 30 * DAY) (now demo_env)\<rparr>"
    by (simp add: demo_first_call [OF ci])
  have p: "cache_path demo_loader ''port_blair'' = cache_path demo_loader ''Port Blair''"
    by (simp add: cache_path_demo)
  have a: "file_age_days (now later_env) (now demo_env) < cache_days demo_loader"
    by (simp add: file_age_days_def later_env_def demo_env_def demo_loader_def DAY_def)
  from second_call_hits_cache [OF f p a, of 30] get_city_info_port_blair_underscore
  show ?thesis by simp
qed

text \<open>
  C4, amended. For a city name that is not in the registry, the call fails with the error
  "not found", with no query sent, no file written and the random generator untouched, when
  the file cache has no fresh entry under the name's cache file; when it has one, the cached
  series is returned and the name is not looked up.
\<close>

theorem unknown_city_fails_unless_cached:
  assumes "get_city_info city_name = Inl err"
  shows "(cache_lookup E L city_name w = None \<longrightarrow>
            fetch_historical_data E L city_name days w = (Inl (CityNotFound city_name), w))
       \<and> (\<forall>df. cache_lookup E L city_name w = Some df \<longrightarrow>
            fetch_historical_data E L city_name days w = (Inr (df, FileCache city_name), w))"
proof -
  from assms have "get_city_info city_name = Inl (CityNotFound city_name)"
    by (auto simp: get_city_info_def split: option.splits)
  then show ?thesis by (simp add: fetch_miss fetch_hit)
qed

theorem unknown_city_fails_unless_cached_witness:
  "get_city_info ''port_blair'' = Inl (CityNotFound ''port_blair'')
   \<and> cache_lookup demo_env demo_loader ''port_blair'' demo_world = None
   \<and> fetch_historical_data demo_env demo_loader ''port_blair'' 30 demo_world
       = (Inl (CityNotFound ''port_blair''), demo_world)"
  using unknown_city_fails_unless_cached [OF get_city_info_port_blair_underscore,
          of demo_env demo_loader demo_world 30]
        get_city_info_port_blair_underscore demo_miss [of demo_env "''port_blair''"]
  by simp

text \<open>
  C6. The cache file is named after the city only (\<open>..._30days.csv\<close> for every \<open>days\<close>):
  a call for 7 days, one second after a call for 30 days of the same city, returns the
  series of 31 rows that the first call stored.
\<close>

theorem cache_ignores_window_length:
  "fst (fetch_historical_data later_env demo_loader ''Delhi'' 7
          (snd (fetch_historical_data demo_env demo_loader ''Delhi'' 30 demo_world)))
     = Inr (window_frame (now demo_env - 30 * DAY) (now demo_env), FileCache ''Delhi'')
   \<and> length (dates (window_frame (now demo_env - 30 * DAY) (now demo_env))) = 31
   \<and> length (dates (window_frame (now later_env - 7 * DAY) (now later_env))) = 8"
proof -
  let ?w1 = "snd (fetch_historical_data demo_env demo_loader ''Delhi'' 30 demo_world)"
  have f: "files ?w1 (cache_path demo_loader ''Delhi'')
           = Some \<lparr>mtime = now demo_env,
                   content = window_frame (now demo_env - 30 * DAY) (now demo_env)\<rparr>"
    by (simp add: demo_first_call [OF get_city_info_Delhi])
  have a: "file_age_days (now later_env) (now demo_env) < cache_days demo_loader"
    by (simp add: file_age_days_def later_env_def demo_env_def demo_loader_def DAY_def)
  have l: "length (dates (window_frame (now demo_env - 30 * DAY) (now demo_env))) = 31"
    by (simp add: window_frame_def Let_def length_date_range DAY_def)
  have l': "length (dates (window_frame (now later_env - 7 * DAY) (now later_env))) = 8"
    by (simp add: window_frame_def Let_def length_date_range DAY_def)
  from second_call_hits_cache [OF f refl a, of 7] l l' show ?thesis by simp
qed

text \<open>
  C7 as stated fails: \<open>to_csv\<close> is not guarded, so a failed write of the cache file ends the
  call with that error although the series was acquired.
\<close>

theorem write_failure_is_raised:
  "fst (acquire readonly_env ''Delhi''
          \<lparr>name = ''Delhi'', lat = 28.7041, lon = 77.1025, state = ''Delhi''\<rparr>
          (now readonly_env - 30 * DAY) (now readonly_env) demo_world)
     = Inr (window_frame (now readonly_env - 30 * DAY) (now readonly_env),
            Meteostat ''Delhi'' 28.7041 77.1025)
   \<and> fst (fetch_historical_data readonly_env demo_loader ''Delhi'' 30 demo_world)
     = Inl (OSError ''data/raw/delhi_30days.csv'')"
proof -
  have l: "live readonly_env = (\<lambda>la lo s e. window_frame s e)"
    by (simp add: readonly_env_def demo_env_def)
  have ne: "\<not> empty_at readonly_env (now readonly_env - 30 * DAY) (now readonly_env) p" for p
    by (simp add: l window_frame_nonempty DAY_def)
  have cw: "\<not> can_write readonly_env (cache_path demo_loader ''Delhi'')"
    by (simp add: readonly_env_def)
  have m: "minus_days (now readonly_env) 30 = Inr (now readonly_env - 30 * DAY)"
    by (simp add: now_demo minus_days_demo)
  let ?ci = "\<lparr>name = ''Delhi'', lat = 28.7041, lon = 77.1025, state = ''Delhi''\<rparr>"
  have a: "acquire readonly_env ''Delhi'' ?ci (now readonly_env - 30 * DAY) (now readonly_env) demo_world
      = (Inr (frame_at readonly_env (now readonly_env - 30 * DAY) (now readonly_env) (lat ?ci, lon ?ci),
              Meteostat ''Delhi'' (lat ?ci) (lon ?ci)),
         demo_world\<lparr>queries := queries demo_world
            @ [query_of (now readonly_env - 30 * DAY) (now readonly_env) (lat ?ci, lon ?ci)]\<rparr>)"
    by (rule acquire_exact) (rule ne)
  have f: "fetch_historical_data readonly_env demo_loader ''Delhi'' 30 demo_world
      = (Inl (OSError (cache_path demo_loader ''Delhi'')),
         demo_world\<lparr>queries := queries demo_world
            @ [query_of (now readonly_env - 30 * DAY) (now readonly_env) (lat ?ci, lon ?ci)]\<rparr>)"
    by (simp only: fetch_miss [OF demo_miss] get_city_info_Delhi m a sum.case prod.case cw if_False)
  have 1: "fst (acquire readonly_env ''Delhi'' ?ci (now readonly_env - 30 * DAY) (now readonly_env) demo_world)
      = Inr (window_frame (now readonly_env - 30 * DAY) (now readonly_env),
             Meteostat ''Delhi'' 28.7041 77.1025)"
    unfolding a by (simp add: l)
  have 2: "fst (fetch_historical_data readonly_env demo_loader ''Delhi'' 30 demo_world)
      = Inl (OSError ''data/raw/delhi_30days.csv'')"
    unfolding f by (simp add: cache_path_demo)
  from 1 2 show ?thesis by (rule conjI)
qed

text \<open>
  C7, amended. When the cache has no fresh entry, the city is in the registry, the start of the
  window is a date that \<open>datetime\<close> can hold and a series was acquired: if the cache file cannot be written the call ends with the write error and the
  series is not returned; if it can be written the series is returned and stored.
\<close>

theorem write_failure_propagates:
  assumes "cache_lookup E L city_name w = None"
    and "get_city_info city_name = Inr ci"
    and "minus_days (now E) days = Inr start_date"
    and "acquire E city_name ci start_date (now E) w = (Inr (df, src), w1)"
  shows "(\<not> can_write E (cache_path L city_name) \<longrightarrow>
            fetch_historical_data E L city_name days w = (Inl (OSError (cache_path L city_name)), w1))
       \<and> (can_write E (cache_path L city_name) \<longrightarrow>
            fetch_historical_data E L city_name days w =
              (Inr (df, src),
               w1\<lparr>files := (files w1)(cache_path L city_name \<mapsto> \<lparr>mtime = now E, content = df\<rparr>)\<rparr>))"
  using assms by (simp add: fetch_miss)

theorem write_failure_propagates_witness:
  "cache_lookup readonly_env demo_loader ''Delhi'' demo_world = None
   \<and> minus_days (now readonly_env) 30 = Inr (now readonly_env - 30 * DAY)
   \<and> get_city_info ''Delhi'' = Inr \<lparr>name = ''Delhi'', lat = 28.7041, lon = 77.1025, state = ''Delhi''\<rparr>
   \<and> \<not> can_write readonly_env (cache_path demo_loader ''Delhi'')
   \<and> fst (fetch_historical_data readonly_env demo_loader ''Delhi'' 30 demo_world)
       = Inl (OSError (cache_path demo_loader ''Delhi''))"
proof -
  let ?ci = "\<lparr>name = ''Delhi'', lat = 28.7041, lon = 77.1025, state = ''Delhi''\<rparr>"
  have l: "live readonly_env = (\<lambda>la lo s e. window_frame s e)"
    by (simp add: readonly_env_def demo_env_def)
  have ne: "\<not> empty_at readonly_env (now readonly_env - 30 * DAY) (now readonly_env) (lat ?ci, lon ?ci)"
    by (simp add: l window_frame_nonempty DAY_def)
  have cw: "\<not> can_write readonly_env (cache_path demo_loader ''Delhi'')"
    by (simp add: readonly_env_def)
  have m: "minus_days (now readonly_env) 30 = Inr (now readonly_env - 30 * DAY)"
    by (simp add: now_demo minus_days_demo)
  from write_failure_propagates [OF demo_miss get_city_info_Delhi m acquire_exact [OF ne]] cw
  have "fetch_historical_data readonly_env demo_loader ''Delhi'' 30 demo_world
        = (Inl (OSError (cache_path demo_loader ''Delhi'')),
           demo_world\<lparr>queries := queries demo_world
              @ [query_of (now readonly_env - 30 * DAY) (now readonly_env) (lat ?ci, lon ?ci)]\<rparr>)"
    by blast
  with cw demo_miss get_city_info_Delhi m show ?thesis by simp
qed

end
